theory Spec2Isabelle
  imports Main
begin

section \<open>Python strings\<close>

text \<open>
  A Python \<open>str\<close> is modelled as an Isabelle \<open>string\<close>. A character stands for the Unicode
  code point of the same number, so the alphabet of the model is the code points below 256;
  the character classes below are Python's classes on that range. Text with code points
  beyond it is outside the model.
\<close>

definition is_space :: "char \<Rightarrow> bool" where
  \<comment> \<open>\<open>str.isspace\<close> on one character; the class that \<open>str.strip()\<close>, \<open>str.split()\<close> and the
      regular expression \<open>\s\<close> use.\<close>
  "is_space c = (c \<in> set [CHR 0x09, CHR 0x0A, CHR 0x0B, CHR 0x0C, CHR 0x0D, CHR 0x1C,
                            CHR 0x1D, CHR 0x1E, CHR 0x1F, CHR 0x20, CHR 0x85, CHR 0xA0])"

definition lstrip :: "string \<Rightarrow> string" where
  "lstrip s = dropWhile is_space s"

definition rstrip :: "string \<Rightarrow> string" where
  "rstrip s = rev (dropWhile is_space (rev s))"

definition strip :: "string \<Rightarrow> string" where
  \<comment> \<open>\<open>s.strip()\<close>\<close>
  "strip s = rstrip (lstrip s)"

definition startswith :: "string \<Rightarrow> string \<Rightarrow> bool" where
  \<comment> \<open>\<open>s.startswith(p)\<close>\<close>
  "startswith s p = (take (length p) s = p)"

definition endswith :: "string \<Rightarrow> string \<Rightarrow> bool" where
  \<comment> \<open>\<open>s.endswith(p)\<close>\<close>
  "endswith s p = (length p \<le> length s \<and> drop (length s - length p) s = p)"

fun contains :: "string \<Rightarrow> string \<Rightarrow> bool" where
  \<comment> \<open>\<open>contains sub s\<close> is Python's \<open>sub in s\<close>\<close>
  "contains sub [] = (sub = [])"
| "contains sub (x # xs) = (startswith (x # xs) sub \<or> contains sub xs)"

fun find_split :: "string \<Rightarrow> string \<Rightarrow> (string \<times> string) option" where
  \<comment> \<open>the text before and after the first occurrence of a separator, if there is one\<close>
  "find_split sep [] = (if sep = [] then Some ([], []) else None)"
| "find_split sep (x # xs) =
     (if startswith (x # xs) sep then Some ([], drop (length sep) (x # xs))
      else (case find_split sep xs of
              None \<Rightarrow> None
            | Some (a, b) \<Rightarrow> Some (x # a, b)))"

definition split_max1 :: "string \<Rightarrow> string \<Rightarrow> string list" where
  \<comment> \<open>\<open>s.split(sep, 1)\<close> for a non-empty separator\<close>
  "split_max1 sep s = (case find_split sep s of None \<Rightarrow> [s] | Some (a, b) \<Rightarrow> [a, b])"

section \<open>The field-entry grammar of the converter\<close>

text \<open>
  \<open>conversion_warnings\<close> is a global list that \<open>parse_file_entry\<close> appends to. The model
  passes the list in and returns it updated.
\<close>

type_synonym warnings = "string list"

definition parse_file_entry ::
  "string \<Rightarrow> string \<Rightarrow> string \<Rightarrow> warnings \<Rightarrow> (string option \<times> string option) \<times> warnings" where
  "parse_file_entry entry field_name dataset_id conversion_warnings =
     (if entry = [] \<or> strip entry = [] then ((None, None), conversion_warnings)
      else
        let entry = strip entry in
        if \<not> contains '' - '' entry then
          ((Some entry, None),
           conversion_warnings @
             [''WARNUNG Dataset '' @ dataset_id @ '': '' @ field_name @
              '' - Fehlender Titel (Format sollte sein: 'dateiname - Titel'). Gefunden: ''
              @ [CHR 0x27] @ entry @ [CHR 0x27]])
        else
          let parts = split_max1 '' - '' entry;
              filename = strip (parts ! 0);
              title = strip (parts ! 1)
          in
          if filename = [] then
            ((None, None),
             conversion_warnings @
               [''FEHLER Dataset '' @ dataset_id @ '': '' @ field_name @
                '' - Leerer Dateiname vor ' - '' @ [CHR 0x27]])
          else if title = [] then
            ((Some filename, None),
             conversion_warnings @
               [''WARNUNG Dataset '' @ dataset_id @ '': '' @ field_name @
                '' - Leerer Titel nach ' - '' @ [CHR 0x27]])
          else ((Some filename, Some title), conversion_warnings))"

section \<open>The field-entry check of the auditor\<close>

definition file_entry_filename :: "string \<Rightarrow> string" where
  \<comment> \<open>the local variable \<open>filename\<close> of \<open>validate_file_entry\<close>, from the stripped entry\<close>
  "file_entry_filename entry =
     (if contains '' - '' entry then strip (split_max1 '' - '' entry ! 0) else entry)"

definition validate_file_entry :: "string \<Rightarrow> string \<Rightarrow> bool \<times> string list" where
  "validate_file_entry entry field_name =
     (if entry = [] \<or> strip entry = [] then (True, [])
      else
        let entry = strip entry;
            filename = file_entry_filename entry;
            issues =
              (if contains '' - '' entry then
                 let title = strip (split_max1 '' - '' entry ! 1) in
                 (if filename = [] then [''Leerer Dateiname vor ' - '' @ [CHR 0x27]] else []) @
                 (if title = [] then [''Leerer Titel nach ' - '' @ [CHR 0x27]] else [])
               else [''Fehlender Titel (Format sollte sein: 'dateiname - Titel')'']);
            issues = issues @
              (if CHR ''.'' \<notin> set filename
               then [''Dateiname ohne Erweiterung: '' @ [CHR 0x27] @ filename @ [CHR 0x27]]
               else []);
            issues = issues @
              (if endswith filename '' '' then [''Dateiname hat nachfolgendes Leerzeichen'']
               else []);
            issues = issues @
              (if startswith filename '' '' then [''Dateiname hat f'' @ [CHR 0xFC] @
                                                   ''hrendes Leerzeichen'']
               else [])
        in (issues = [], issues))"

section \<open>Python's \<open>int()\<close> on a string\<close>

definition int_space :: "char \<Rightarrow> bool" where
  \<comment> \<open>the white space that \<open>int()\<close> skips around a number: the C white space and the
      white space beyond ASCII (the separators \<open>0x1C\<close> to \<open>0x1F\<close> are not skipped)\<close>
  "int_space c = (c \<in> set [CHR 0x09, CHR 0x0A, CHR 0x0B, CHR 0x0C, CHR 0x0D, CHR 0x20,
                             CHR 0x85, CHR 0xA0])"

definition is_decimal :: "char \<Rightarrow> bool" where
  \<comment> \<open>a decimal digit: what \<open>int()\<close> and the regular expression \<open>\d\<close> accept\<close>
  "is_decimal c = (c \<in> set ''0123456789'')"

definition digit_val :: "char \<Rightarrow> nat" where
  "digit_val c = of_char c - 48"

fun digits_ok :: "string \<Rightarrow> bool" where
  \<comment> \<open>one or more digits, with single underscores allowed between two digits\<close>
  "digits_ok [] = False"
| "digits_ok [c] = is_decimal c"
| "digits_ok (c # d # cs) =
     (is_decimal c \<and> (if d = CHR ''_'' then digits_ok cs else digits_ok (d # cs)))"

definition max_str_digits :: nat where
  \<comment> \<open>CPython (from 3.11) refuses a longer run of digits with a \<open>ValueError\<close>\<close>
  "max_str_digits = 4300"

definition py_int :: "string \<Rightarrow> int option" where
  \<comment> \<open>\<open>int(s)\<close>; \<open>None\<close> stands for the \<open>ValueError\<close>\<close>
  "py_int s =
     (let t = rev (dropWhile int_space (rev (dropWhile int_space s)));
          negative = (t \<noteq> [] \<and> hd t = CHR ''-'');
          body = (if t \<noteq> [] \<and> (hd t = CHR ''-'' \<or> hd t = CHR ''+'') then tl t else t);
          ds = filter is_decimal body;
          n = int (foldl (\<lambda>a c. 10 * a + digit_val c) 0 ds)
      in if digits_ok body \<and> length ds \<le> max_str_digits
         then Some (if negative then - n else n)
         else None)"

section \<open>The date rule of the auditor\<close>

definition validate_date_range :: "string \<Rightarrow> string \<Rightarrow> string \<Rightarrow> bool \<times> string list" where
  "validate_date_range year date_from date_to =
     (let issues =
            (if date_from \<noteq> [] \<and> date_to = []
             then [''Datumsbereich unvollst'' @ [CHR 0xE4] @ ''ndig: hat 'Datum Von' ('' @
                   date_from @ '') aber 'Datum Bis' fehlt'']
             else []);
          issues = issues @
            (if date_to \<noteq> [] \<and> date_from = []
             then [''Datumsbereich unvollst'' @ [CHR 0xE4] @ ''ndig: hat 'Datum Bis' ('' @
                   date_to @ '') aber 'Datum Von' fehlt'']
             else []);
          issues = issues @
            (if date_from \<noteq> [] \<and> date_to \<noteq> [] \<and> year \<noteq> [] then
               (case py_int year of
                  None \<Rightarrow> []
                | Some year_int \<Rightarrow>
                    (case py_int date_from of
                       None \<Rightarrow> []
                     | Some from_int \<Rightarrow>
                         (case py_int date_to of
                            None \<Rightarrow> []
                          | Some to_int \<Rightarrow>
                              if \<not> (from_int \<le> year_int \<and> year_int \<le> to_int)
                              then [''Jahr '' @ year @ '' liegt nicht im Datumsbereich '' @
                                    date_from @ ''-'' @ date_to]
                              else [])))
             else [])
      in (issues = [], issues))"

section \<open>More string functions\<close>

function replace :: "string \<Rightarrow> string \<Rightarrow> string \<Rightarrow> string" where
  \<comment> \<open>\<open>replace old new s\<close> is \<open>s.replace(old, new)\<close> for a non-empty \<open>old\<close>: the occurrences
      are replaced from the left, without overlap\<close>
  "replace old new [] = []"
| "replace old new (x # xs) =
     (if old \<noteq> [] \<and> startswith (x # xs) old
      then new @ replace old new (drop (length old) (x # xs))
      else x # replace old new xs)"
  by pat_completeness auto
termination
  by (relation "measure (\<lambda>(old, new, s). length s)") auto

function split :: "string \<Rightarrow> string \<Rightarrow> string list" where
  \<comment> \<open>\<open>split sep s\<close> is \<open>s.split(sep)\<close> for a non-empty separator\<close>
  "split sep [] = [[]]"
| "split sep (x # xs) =
     (if sep \<noteq> [] \<and> startswith (x # xs) sep
      then [] # split sep (drop (length sep) (x # xs))
      else (case split sep xs of
              [] \<Rightarrow> [[x]]
            | p # ps \<Rightarrow> (x # p) # ps))"
  by pat_completeness auto
termination
  by (relation "measure (\<lambda>(sep, s). length s)") auto

fun split_ws :: "string \<Rightarrow> string list" where
  \<comment> \<open>\<open>s.split()\<close>: the maximal runs of characters that are not white space\<close>
  "split_ws [] = []"
| "split_ws (c # cs) =
     (if is_space c then split_ws cs
      else (case cs of
              [] \<Rightarrow> [[c]]
            | d # _ \<Rightarrow>
                if is_space d then [c] # split_ws cs
                else (case split_ws cs of
                        [] \<Rightarrow> [[c]]
                      | w # ws \<Rightarrow> (c # w) # ws)))"

fun join :: "string \<Rightarrow> string list \<Rightarrow> string" where
  \<comment> \<open>\<open>join sep xs\<close> is \<open>sep.join(xs)\<close>\<close>
  "join sep [] = []"
| "join sep [x] = x"
| "join sep (x # y # ys) = x @ sep @ join sep (y # ys)"

section \<open>The inline markup converter\<close>

text \<open>
  \<open>markdown_to_tei\<close> walks over the matches of the regular expression \<open>\*([^*]+)\*\<close>.
  A match starts at a \<open>*\<close> that is followed by one or more characters other than \<open>*\<close> and
  then a \<open>*\<close>; the search goes from left to right and goes on after the end of a match.
  \<open>markdown_parts pending s\<close> is the loop: \<open>s\<close> is the text from the search position on and
  \<open>pending\<close> is the text between \<open>current_pos\<close> and the search position.
\<close>

function markdown_parts :: "string \<Rightarrow> string \<Rightarrow> (string \<times> string) list" where
  "markdown_parts pending [] = (if pending \<noteq> [] then [(''text'', pending)] else [])"
| "markdown_parts pending (c # cs) =
     (if c = CHR ''*'' \<and> takeWhile (\<lambda>x. x \<noteq> CHR ''*'') cs \<noteq> [] \<and>
         dropWhile (\<lambda>x. x \<noteq> CHR ''*'') cs \<noteq> []
      then (if pending \<noteq> [] then [(''text'', pending)] else []) @
           (''italic'', takeWhile (\<lambda>x. x \<noteq> CHR ''*'') cs) #
           markdown_parts [] (tl (dropWhile (\<lambda>x. x \<noteq> CHR ''*'') cs))
      else markdown_parts (pending @ [c]) cs)"
  by pat_completeness auto
termination
  by (relation "measure (\<lambda>(pending, s). length s)")
     (auto simp: less_Suc_eq_le intro: le_trans [OF diff_le_self length_dropWhile_le])

definition markdown_to_tei :: "string \<Rightarrow> (string \<times> string) list option" where
  \<comment> \<open>\<open>None\<close> is Python's \<open>None\<close>, returned for an empty text\<close>
  "markdown_to_tei text = (if text = [] then None else Some (markdown_parts [] text))"

section \<open>The authors of a citation\<close>

definition match_before :: "char \<Rightarrow> string \<Rightarrow> string option" where
  \<comment> \<open>group 1 of \<open>re.match\<close> with \<open>^([^.]+?)\.\<close> (for \<open>c\<close> the full stop) and with
      \<open>^([^*]+)\*\<close> (for \<open>c\<close> the asterisk): the text before the first \<open>c\<close>, when that text
      is not empty\<close>
  "match_before c text =
     (let g = takeWhile (\<lambda>x. x \<noteq> c) text
      in if g \<noteq> [] \<and> length g < length text then Some g else None)"

definition parse_citation_authors :: "string \<Rightarrow> string list" where
  "parse_citation_authors citation_text =
     (if citation_text = [] then []
      else
        let match = match_before (CHR ''.'') citation_text;
            match = (if match = None then match_before (CHR ''*'') citation_text else match)
        in case match of
             None \<Rightarrow> []
           | Some g \<Rightarrow>
               let author_part = strip g;
                   author_part = replace '' and '' '', '' author_part
               in filter (\<lambda>a. a \<noteq> []) (map strip (split '','' author_part)))"

definition segments :: "(string \<times> string) list option \<Rightarrow> (string \<times> string) list" where
  \<comment> \<open>the parts as the caller \<open>add_mixed_content\<close> reads them: \<open>None\<close> holds no part\<close>
  "segments r = (case r of None \<Rightarrow> [] | Some parts \<Rightarrow> parts)"

definition part_source :: "string \<times> string \<Rightarrow> string" where
  \<comment> \<open>the source text of a part: an italic part stood between two \<open>*\<close>\<close>
  "part_source p = (if fst p = ''italic'' then ''*'' @ snd p @ ''*'' else snd p)"

section \<open>The table loader of the converter\<close>

text \<open>
  A Dataset Record is a Python \<open>dict\<close> from field names to values. The rows are what
  \<open>csv.reader\<close> returns: one list of cells for each line of the table.
\<close>

type_synonym dataset = "string \<rightharpoonup> string"

datatype py_error = IndexError | ExpatError | OSError

definition store_cell :: "string list \<Rightarrow> string \<Rightarrow> dataset list \<Rightarrow> nat \<Rightarrow> dataset list" where
  \<comment> \<open>the body of the loop over the dataset columns, for the column \<open>i\<close>\<close>
  "store_cell row field_name datasets i =
     (let col_idx = i + 2 in
      if col_idx < length row then
        let val = strip (row ! col_idx) in
        if val \<noteq> [] then datasets[i := (datasets ! i)(field_name \<mapsto> val)] else datasets
      else datasets)"

definition store_row :: "nat \<Rightarrow> dataset list \<Rightarrow> string list \<Rightarrow> dataset list" where
  \<comment> \<open>the body of the loop over the rows\<close>
  "store_row num_datasets datasets row =
     (if length row < 2 \<or> strip (row ! 0) = [] then datasets
      else foldl (store_cell row (strip (row ! 0))) datasets [0..<num_datasets])"

definition parse_csv_column :: "string list list \<Rightarrow> py_error + dataset list" where
  \<comment> \<open>\<open>rows[1]\<close> raises \<open>IndexError\<close> on a table with fewer than two rows\<close>
  "parse_csv_column rows =
     (if length rows < 2 then Inl IndexError
      else
        let dataset_headers = drop 2 (rows ! 1);
            num_datasets = length (filter (\<lambda>h. strip h \<noteq> []) dataset_headers);
            datasets = replicate num_datasets Map.empty
        in Inr (foldl (store_row num_datasets) datasets (drop 4 rows)))"

definition cell_source :: "string list list \<Rightarrow> nat \<Rightarrow> string \<Rightarrow> string \<Rightarrow> bool" where
  \<comment> \<open>some field row of the table holds, in the column of dataset \<open>i\<close>, a cell that strips to
      \<open>v\<close>, under the field name \<open>f\<close>\<close>
  "cell_source rows i f v =
     (\<exists>row \<in> set (drop 4 rows).
        2 \<le> length row \<and> strip (row ! 0) = f \<and> i + 2 < length row \<and> strip (row ! (i + 2)) = v)"

definition stored_ok :: "string list list \<Rightarrow> dataset list \<Rightarrow> bool" where
  \<comment> \<open>the invariant of the loader: every value bound so far is non-empty, stripped
      and comes from a cell of the table\<close>
  "stored_ok rows datasets =
     (\<forall>i < length datasets. \<forall>f v. (datasets ! i) f = Some v \<longrightarrow>
        v \<noteq> [] \<and> strip v = v \<and> cell_source rows i f v)"

section \<open>Character case and decimal numerals\<close>

definition lower_char :: "char \<Rightarrow> char" where
  "lower_char c =
     (let n = of_char c :: nat
      in if (65 \<le> n \<and> n \<le> 90) \<or> (192 \<le> n \<and> n \<le> 222 \<and> n \<noteq> 215) then char_of (n + 32) else c)"

definition lower :: "string \<Rightarrow> string" where
  \<comment> \<open>\<open>s.lower()\<close>\<close>
  "lower s = map lower_char s"

definition upper_char :: "char \<Rightarrow> string" where
  \<comment> \<open>the upper case of the sharp s is \<open>SS\<close>; the upper cases of the micro sign and of the
      y with diaeresis lie beyond the alphabet of the model and the two are left as they are\<close>
  "upper_char c =
     (let n = of_char c :: nat
      in if (97 \<le> n \<and> n \<le> 122) \<or> (224 \<le> n \<and> n \<le> 254 \<and> n \<noteq> 247) then [char_of (n - 32)]
         else if n = 223 then ''SS''
         else [c])"

definition upper :: "string \<Rightarrow> string" where
  \<comment> \<open>\<open>s.upper()\<close>\<close>
  "upper s = concat (map upper_char s)"

definition isdigit :: "char \<Rightarrow> bool" where
  \<comment> \<open>\<open>str.isdigit\<close> on one character: the decimal digits and the superscripts 1, 2, 3\<close>
  "isdigit c = (c \<in> set ''0123456789'' \<or> c \<in> set [CHR 0xB2, CHR 0xB3, CHR 0xB9])"

function str_nat :: "nat \<Rightarrow> string" where
  \<comment> \<open>\<open>str(n)\<close>, as an f-string formats a number\<close>
  "str_nat n =
     (if n < 10 then [char_of (48 + n)] else str_nat (n div 10) @ [char_of (48 + n mod 10)])"
  by pat_completeness auto
termination
  by (relation "measure id") auto

section \<open>Elements\<close>

text \<open>
  An \<open>xml.etree.ElementTree.Element\<close>: the tag, the attributes in the order they were set,
  the text, the tail and the children. The converter appends an element to its parent and
  goes on to fill it; the parent then holds the filled element. The model builds an element
  first and appends it when it is complete, which gives the same tree.
\<close>

datatype elem =
  Element (elem_tag: string) (elem_attrib: "(string \<times> string) list")
          (elem_text: "string option") (elem_tail: "string option") (elem_children: "elem list")

definition TEI_NS :: string where
  "TEI_NS = ''http://www.tei-c.org/ns/1.0''"

definition XML_NS :: string where
  "XML_NS = ''http://www.w3.org/XML/1998/namespace''"

definition xml_lang :: string where
  \<comment> \<open>the attribute name \<open>f'{{{XML_NS}}}lang'\<close>\<close>
  "xml_lang = ''{'' @ XML_NS @ ''}lang''"

definition xml_id :: string where
  \<comment> \<open>the attribute name \<open>f'{{{XML_NS}}}id'\<close>\<close>
  "xml_id = ''{'' @ XML_NS @ ''}id''"

definition truthy :: "string option \<Rightarrow> bool" where
  \<comment> \<open>Python's truth value of a string or \<open>None\<close>\<close>
  "truthy v = (v \<noteq> None \<and> v \<noteq> Some [])"

definition create_tei_element :: "string \<Rightarrow> string option \<Rightarrow> (string \<times> string) list \<Rightarrow> elem" where
  "create_tei_element tg txt attrib =
     Element (''{'' @ TEI_NS @ ''}'' @ tg) attrib (if truthy txt then txt else None) None []"

definition elem_append :: "elem \<Rightarrow> elem \<Rightarrow> elem" where
  \<comment> \<open>\<open>parent.append(child)\<close>\<close>
  "elem_append parent child =
     Element (elem_tag parent) (elem_attrib parent) (elem_text parent) (elem_tail parent)
             (elem_children parent @ [child])"

definition elem_extend :: "elem \<Rightarrow> elem list \<Rightarrow> elem" where
  \<comment> \<open>one \<open>parent.append\<close> for each element of a list, in order\<close>
  "elem_extend parent cs = foldl elem_append parent cs"

definition set_text :: "elem \<Rightarrow> string \<Rightarrow> elem" where
  \<comment> \<open>\<open>parent.text = s\<close>\<close>
  "set_text parent s =
     Element (elem_tag parent) (elem_attrib parent) (Some s) (elem_tail parent)
             (elem_children parent)"

definition add_tail :: "elem \<Rightarrow> string \<Rightarrow> elem" where
  \<comment> \<open>\<open>e.tail += s\<close> when the tail is set and not empty, \<open>e.tail = s\<close> otherwise\<close>
  "add_tail e s =
     Element (elem_tag e) (elem_attrib e) (elem_text e)
             (if truthy (elem_tail e) then Some (the (elem_tail e) @ s) else Some s)
             (elem_children e)"

section \<open>Helpers of the converter\<close>

definition DATASET_FOLDERS :: "(string \<times> string) list" where
  "DATASET_FOLDERS =
     [(''147'', ''datafile_147_Serbia_1863''),
      (''21'', ''datafile_21_Albania_1918''),
      (''262'', ''datafile_262_Montenegro_1879''),
      (''266'', ''datafile_266_Armenians_in_Istanbul_1907''),
      (''153'', ''datafile_153_Rhodope_mountains_around_1900''),
      (''234'', ''datafile_234_Wallachia_1838''),
      (''154'', ''datafile_154_Dalmatia_1674''),
      (''164'', ''datafile_164_Istanbul_1907''),
      (''165'', ''datafile_165_Istanbul_1885''),
      (''152'', ''datafile_152_Hungary_1869'')]"

definition get_dataset_folder :: "string \<Rightarrow> string option" where
  "get_dataset_folder dataset_id = map_of DATASET_FOLDERS dataset_id"

definition add_folder_prefix :: "string \<Rightarrow> string \<Rightarrow> string" where
  "add_folder_prefix filename dataset_id =
     (case get_dataset_folder dataset_id of
        None \<Rightarrow> filename
      | Some folder \<Rightarrow>
          if folder \<noteq> [] \<and> filename \<noteq> [] then ''../'' @ folder @ ''/'' @ filename
          else filename)"

definition sanitize_xml_id :: "string \<Rightarrow> string" where
  "sanitize_xml_id filename =
     (if filename = [] then ''id_unknown''
      else
        let id_str = replace ''.png'' [] (replace ''.jpeg'' [] (replace ''.JPG'' []
                       (replace ''.jpg'' [] (replace ''.pdf'' [] (replace ''.csv'' [] filename)))));
            id_str = replace ''-'' ''_'' (replace ''.'' ''_'' (replace '' '' ''_'' id_str));
            id_str = (if id_str \<noteq> [] \<and> isdigit (hd id_str) then ''_'' @ id_str else id_str)
        in if id_str \<noteq> [] then id_str else ''id_unknown'')"

fun add_part :: "elem \<Rightarrow> nat \<times> string \<times> string \<Rightarrow> elem" where
  \<comment> \<open>the body of the loop of \<open>add_mixed_content\<close>, for the part with index \<open>i\<close>\<close>
  "add_part parent (i, part_type, content) =
     (if part_type = ''text'' then
        (if i = 0 then set_text parent content
         else if elem_children parent \<noteq> [] then
           Element (elem_tag parent) (elem_attrib parent) (elem_text parent) (elem_tail parent)
                   (butlast (elem_children parent) @ [add_tail (last (elem_children parent)) content])
         else parent)
      else if part_type = ''italic'' then
        elem_append parent (create_tei_element ''hi'' (Some content) [(''rend'', ''italic'')])
      else parent)"

definition add_mixed_content :: "elem \<Rightarrow> string \<Rightarrow> elem" where
  "add_mixed_content parent txt =
     (if txt = [] then parent
      else
        let parts = markdown_to_tei txt in
        if segments parts = [] then set_text parent txt
        else foldl add_part parent (zip [0..<length (segments parts)] (segments parts)))"

definition title_attrib :: "string option \<Rightarrow> string option \<Rightarrow> string option \<Rightarrow> (string \<times> string) list" where
  \<comment> \<open>the dictionary \<open>attrib\<close> that \<open>add_title\<close> fills\<close>
  "title_attrib level lang ref =
     (if truthy level then [(''level'', the level)] else []) @
     (if truthy lang then [(xml_lang, the lang)] else []) @
     (if truthy ref then [(''ref'', the ref)] else [])"

definition add_title ::
  "elem \<Rightarrow> string option \<Rightarrow> string option \<Rightarrow> string option \<Rightarrow> string option \<Rightarrow> elem" where
  "add_title parent title_text level lang ref =
     elem_append parent (create_tei_element ''title'' title_text (title_attrib level lang ref))"

definition add_person_name :: "elem \<Rightarrow> string option \<Rightarrow> string option \<Rightarrow> elem" where
  "add_person_name parent forename surname =
     elem_append parent
       (elem_extend (create_tei_element ''persName'' None [])
          [create_tei_element ''forename'' forename [],
           create_tei_element ''surname'' surname []])"

definition get_wikidata_qid :: "string \<Rightarrow> string option" where
  \<comment> \<open>the table also has two spellings of a town whose name holds the letter U+0161, beyond
      the alphabet of the model; no string of the model equals them\<close>
  "get_wikidata_qid location_name =
     map_of
       [(''Serbia'', ''Q403''), (''Albania'', ''Q222''), (''Montenegro'', ''Q236''),
        (''Turkey'', ''Q43''), (''Bosnia'', ''Q225''), (''Greece'', ''Q41''),
        (''Bulgaria'', ''Q219''), (''Romania'', ''Q218''), (''Croatia'', ''Q224''),
        (''Istanbul'', ''Q406'')]
       location_name"

section \<open>Template data\<close>

text \<open>
  The dictionary that \<open>extract_template_data\<close> builds from the exemplar document. A key is
  absent (\<open>None\<close>) or present; the text of an XML element is itself \<open>None\<close> when the element
  is empty, and an attribute read with a default is always a string.
\<close>

record series_title =
  st_text :: "string option"
  st_lang :: string
  st_ref :: string

record project_director =
  pd_forename :: "string option"
  pd_surname :: "string option"
  pd_resp :: "string option"

record research_team =
  rt_name :: "string option"
  rt_ref :: string
  rt_resp :: "string option"

record context_ref =
  cr_text :: "string option"
  cr_target :: string
  cr_type :: string

record template_data =
  tpl_publisher_name :: "string option option"
  tpl_publisher_corresp :: "string option"
  tpl_authority_name :: "string option option"
  tpl_authority_corresp :: "string option"
  tpl_distributor_name :: "string option option"
  tpl_distributor_ref :: "string option"
  tpl_license_text :: "string option option"
  tpl_license_target :: "string option"
  tpl_pub_place :: "string option option"
  tpl_funder_name :: "string option option"
  tpl_funder_ref :: "string option"
  tpl_funder_num :: "string option option"
  tpl_series_titles :: "series_title list option"
  tpl_project_director :: "project_director option"
  tpl_research_team :: "research_team option"
  tpl_project_desc_paragraphs :: "string list option"
  tpl_project_context_ref :: "context_ref option"

definition get_default :: "'a option \<Rightarrow> 'a \<Rightarrow> 'a" where
  \<comment> \<open>\<open>d.get(key, default)\<close>, for the lookup \<open>d key\<close>\<close>
  "get_default v d = (case v of None \<Rightarrow> d | Some x \<Rightarrow> x)"

section \<open>The document synthesizer\<close>

text \<open>
  \<open>create_tei_document\<close>, region by region in the order of the source. The regions that
  parse file entries append to \<open>conversion_warnings\<close>: they take the list and return it.
\<close>

definition editor_elem :: "string \<Rightarrow> string \<Rightarrow> elem" where
  "editor_elem forename surname =
     add_person_name (create_tei_element ''editor'' None [(''ana'', ''marcrelator:edt'')])
       (Some forename) (Some surname)"

definition editor_elems :: "string list \<Rightarrow> elem list" where
  \<comment> \<open>the editors appended to \<open>titleStmt\<close>\<close>
  "editor_elems author_names =
     (if author_names \<noteq> [] then
        concat (map (\<lambda>author_name.
                  let name_parts = split_ws (strip author_name) in
                  if 2 \<le> length name_parts
                  then [editor_elem (join '' '' (butlast name_parts)) (last name_parts)]
                  else [])
                (take 3 author_names))
      else [editor_elem ''FIRST'' ''LAST''])"

definition title_stmt_elem :: "dataset \<Rightarrow> template_data \<Rightarrow> elem" where
  "title_stmt_elem dataset template_data =
     (let dataset_title = get_default (dataset ''Datensatz Titel'') ''Untitled Dataset'';
          dataset_id = get_default (dataset ''Datensatz ID'') ''000'';
          title_stmt = add_title (create_tei_element ''titleStmt'' None [])
                         (Some (''Nr. '' @ dataset_id @ '': '' @ dataset_title)) None None None;
          citation_text = get_default (dataset ''Zitierempfehlung'') [];
          author_names = parse_citation_authors citation_text;
          title_stmt = elem_extend title_stmt (editor_elems author_names);
          resp_stmt = create_tei_element ''respStmt'' None [(''ana'', ''marcrelator:mrk'')];
          resp_stmt = elem_append resp_stmt (create_tei_element ''resp'' (Some ''XML encoding'') []);
          resp_stmt = add_person_name resp_stmt (Some ''Christian'') (Some ''Steiner'');
          title_stmt = elem_append title_stmt resp_stmt;
          funder = create_tei_element ''funder'' None [(''ana'', ''marcrelator:fnd'')];
          funder_name = get_default (tpl_funder_name template_data)
                          (Some ''Austrian Science Fund (FWF)'');
          funder_ref = get_default (tpl_funder_ref template_data) ''https://www.fwf.ac.at/de/'';
          funder_num = get_default (tpl_funder_num template_data) (Some ''P 38285-G'');
          funder = elem_append funder (create_tei_element ''orgName'' funder_name [(''ref'', funder_ref)]);
          funder = elem_append funder (create_tei_element ''num'' funder_num [])
      in elem_append title_stmt funder)"

definition pub_stmt_elem :: "dataset \<Rightarrow> template_data \<Rightarrow> elem" where
  "pub_stmt_elem dataset template_data =
     (let dataset_id = get_default (dataset ''Datensatz ID'') ''000'';
          pub_stmt = create_tei_element ''publicationStmt'' None [];
          pub_name = get_default (tpl_publisher_name template_data)
                       (Some (''Institut f'' @ [CHR 0xFC] @ ''r Geschichte, Universit'' @
                              [CHR 0xE4] @ ''t Graz''));
          pub_corresp = get_default (tpl_publisher_corresp template_data)
                          ''http://geschichte.uni-graz.at/'';
          pub_stmt = elem_append pub_stmt
            (elem_append (create_tei_element ''publisher'' None [])
               (create_tei_element ''orgName'' pub_name [(''corresp'', pub_corresp)]));
          auth_name1 = get_default (tpl_authority_name template_data)
                         (Some ''Digital Humanities Craft OG'');
          auth_corresp1 = get_default (tpl_authority_corresp template_data) ''https://dhcraft.org'';
          pub_stmt = elem_append pub_stmt
            (elem_append (create_tei_element ''authority'' None [(''ana'', ''marcrelator:his'')])
               (create_tei_element ''orgName'' auth_name1 [(''corresp'', auth_corresp1)]));
          pub_stmt = elem_append pub_stmt
            (elem_append (create_tei_element ''authority'' None [(''ana'', ''marcrelator:his'')])
               (create_tei_element ''orgName''
                  (Some (''Institut f'' @ [CHR 0xFC] @
                         ''r Digitale Geisteswissenschaften, Universit'' @ [CHR 0xE4] @ ''t Graz''))
                  [(''ref'', ''https://digital-humanities.uni-graz.at'')]));
          dist_name = get_default (tpl_distributor_name template_data)
                        (Some ''GAMS - Geisteswissenschaftliches Asset Management System'');
          dist_ref = get_default (tpl_distributor_ref template_data) ''https://gams.uni-graz.at'';
          pub_stmt = elem_append pub_stmt
            (elem_append (create_tei_element ''distributor'' None [(''ana'', ''marcrelator:rps'')])
               (create_tei_element ''orgName'' dist_name [(''ref'', dist_ref)]));
          lic_text = get_default (tpl_license_text template_data)
                       (Some ''Creative Commons BY-NC 4.0'');
          lic_target = get_default (tpl_license_target template_data)
                         ''https://creativecommons.org/licenses/by-nc/4.0'';
          pub_stmt = elem_append pub_stmt
            (elem_append (create_tei_element ''availability'' None [])
               (create_tei_element ''licence'' lic_text [(''target'', lic_target)]));
          year = ''2025'';
          pub_stmt = elem_append pub_stmt
            (create_tei_element ''date'' (Some year) [(''when'', year), (''ana'', ''dcterms:issued'')]);
          pub_place_text = get_default (tpl_pub_place template_data) (Some ''Graz'');
          pub_stmt = elem_append pub_stmt
            (create_tei_element ''pubPlace'' pub_place_text [(''ana'', ''marcrelator:pup'')]);
          pid = get_default (dataset ''PID'') (''o:histdem.'' @ dataset_id)
      in elem_append pub_stmt (create_tei_element ''idno'' (Some pid) [(''type'', ''PID'')]))"

definition series_stmt_elem :: "template_data \<Rightarrow> elem" where
  "series_stmt_elem template_data =
     (let series_stmt = create_tei_element ''seriesStmt'' None [];
          series_stmt =
            foldl (\<lambda>e title_data.
                     add_title e (st_text title_data) None (Some (st_lang title_data))
                       (Some (st_ref title_data)))
                  series_stmt (get_default (tpl_series_titles template_data) []);
          series_stmt =
            (case tpl_project_director template_data of
               None \<Rightarrow> series_stmt
             | Some pdr \<Rightarrow>
                 let pdr_stmt = create_tei_element ''respStmt'' None [(''ana'', ''marcrelator:pdr'')];
                     pdr_stmt = elem_append pdr_stmt (create_tei_element ''resp'' (pd_resp pdr) []);
                     pdr_stmt = add_person_name pdr_stmt (pd_forename pdr) (pd_surname pdr)
                 in elem_append series_stmt pdr_stmt)
      in case tpl_research_team template_data of
           None \<Rightarrow> series_stmt
         | Some team \<Rightarrow>
             let rth_stmt = create_tei_element ''respStmt'' None [(''ana'', ''marcrelator:rth'')];
                 rth_stmt = elem_append rth_stmt (create_tei_element ''resp'' (rt_resp team) []);
                 rth_stmt = elem_append rth_stmt
                   (create_tei_element ''orgName'' (rt_name team) [(''ref'', rt_ref team)])
             in elem_append series_stmt rth_stmt)"

definition source_bibl_elem :: "dataset \<Rightarrow> elem" where
  \<comment> \<open>the first \<open>bibl\<close> of \<open>sourceDesc\<close>: date, country and region\<close>
  "source_bibl_elem dataset =
     (let source_bibl = create_tei_element ''bibl'' None [];
          year_val = dataset ''Jahr'';
          date_from = dataset ''Datum Von'';
          date_to = dataset ''Datum Bis'';
          date_elem =
            (if truthy date_from \<and> truthy date_to then
               create_tei_element ''date'' (Some (the date_from @ ''-'' @ the date_to))
                 [(''from'', the date_from), (''to'', the date_to), (''ana'', ''dcterms:created'')]
             else if truthy year_val then
               create_tei_element ''date'' year_val
                 [(''when'', the year_val), (''ana'', ''dcterms:created'')]
             else
               create_tei_element ''date'' (Some ''YEAR'')
                 [(''when'', ''YEAR''), (''ana'', ''dcterms:created'')]);
          source_bibl = elem_append source_bibl date_elem;
          country = get_default (dataset ''Land'') ''COUNTRY'';
          country_qid = strip (get_default (dataset ''Land Wikidata'') []);
          country_qid =
            (if country_qid = []
             then (if truthy (get_wikidata_qid country) then the (get_wikidata_qid country)
                   else ''None'')
             else country_qid);
          source_bibl = elem_append source_bibl
            (create_tei_element ''country'' (Some country)
               [(''ana'', ''marcrelator:prp''), (''ref'', ''wd:'' @ country_qid)]);
          region = dataset ''Region''
      in if truthy region then
           let region_qid = Some (strip (get_default (dataset ''Region Wikidata'') []));
               region_qid = (if \<not> truthy region_qid then get_wikidata_qid (the region)
                             else region_qid);
               region_elem =
                 (if truthy region_qid then
                    create_tei_element ''region'' region
                      [(''ana'', ''marcrelator:prp''), (''ref'', ''wd:'' @ the region_qid)]
                  else
                    create_tei_element ''region'' region
                      [(''ana'', ''marcrelator:prp''), (''ref'', ''wd:QXXX'')])
           in elem_append source_bibl region_elem
         else source_bibl)"

definition citation_year :: "string \<Rightarrow> string option" where
  \<comment> \<open>group 1 of \<open>re.search\<close> with \<open>(\d{4})\.?\s*$\<close>: the four digits at the end of the text,
      before one optional full stop and white space\<close>
  "citation_year s =
     (let r = rstrip s;
          r = (if r \<noteq> [] \<and> last r = CHR ''.'' then butlast r else r);
          n = length r
      in if 4 \<le> n \<and> list_all is_decimal (drop (n - 4) r) then Some (drop (n - 4) r) else None)"

definition citation_bibl_elem :: "dataset \<Rightarrow> elem" where
  \<comment> \<open>the \<open>bibl\<close> of type \<open>citation\<close>, built when \<open>Zitierempfehlung\<close> is not empty\<close>
  "citation_bibl_elem dataset =
     (let dataset_title = get_default (dataset ''Datensatz Titel'') ''Untitled Dataset'';
          citation_text = get_default (dataset ''Zitierempfehlung'') [];
          author_names = parse_citation_authors citation_text;
          year_val = dataset ''Jahr'';
          citation_bibl = create_tei_element ''bibl'' None [(''type'', ''citation'')];
          citation_bibl = elem_extend citation_bibl
            (map (\<lambda>author_name. create_tei_element ''author'' (Some author_name) []) author_names);
          citation_bibl = add_title citation_bibl (Some dataset_title) (Some ''a'') None None;
          citation_bibl = add_title citation_bibl (Some ''Mosaic Historical Microdata File'')
                            (Some ''s'') None None;
          citation_bibl = elem_append citation_bibl
            (if contains ''mosaic.ipums.org'' citation_text
             then create_tei_element ''publisher'' (Some ''mosaic.ipums.org'') []
             else if contains ''censusmosaic.org'' citation_text
             then create_tei_element ''publisher'' (Some ''www.censusmosaic.org'') []
             else create_tei_element ''publisher'' (Some ''mosaic.ipums.org'') []);
          citation_bibl = elem_append citation_bibl
            (case citation_year citation_text of
               Some y \<Rightarrow> create_tei_element ''date'' (Some y) []
             | None \<Rightarrow>
                 create_tei_element ''date'' (if truthy year_val then year_val else Some ''2024'') []);
          rs_citation = create_tei_element ''rs'' None [(''type'', ''citation_recommendation'')];
          rs_citation = add_mixed_content rs_citation citation_text
      in elem_append citation_bibl rs_citation)"

definition file_elem :: "string \<Rightarrow> string \<Rightarrow> string \<Rightarrow> string \<Rightarrow> elem" where
  \<comment> \<open>a \<open>media\<close> or \<open>graphic\<close> element with its three attributes\<close>
  "file_elem tg file_url mime_type media_id =
     create_tei_element tg None [(''url'', file_url), (''mimeType'', mime_type), (xml_id, media_id)]"

definition csv_entry ::
  "string \<Rightarrow> string \<Rightarrow> string \<Rightarrow> dataset \<Rightarrow> string \<Rightarrow> elem \<times> warnings \<Rightarrow> elem \<times> warnings" where
  \<comment> \<open>the block for \<open>CSV Codes\<close> (type \<open>codes\<close>) and the block for \<open>CSV Labels\<close> (type
      \<open>labels\<close>), which differ in the key, the type and the default title\<close>
  "csv_entry key rs_type default_title dataset dataset_id st =
     (let data_bibl = fst st; conversion_warnings = snd st; csv_val = dataset key in
      if truthy csv_val then
        let r = parse_file_entry (the csv_val) key dataset_id conversion_warnings;
            filename = fst (fst r); title = snd (fst r); conversion_warnings = snd r
        in if truthy filename then
             let rs = create_tei_element ''rs'' None [(''type'', rs_type)];
                 rs = add_title rs (if truthy title then title else Some default_title)
                        None None None;
                 file_url = add_folder_prefix (the filename) dataset_id;
                 media_id = sanitize_xml_id (the filename);
                 rs = elem_append rs (file_elem ''media'' file_url ''text/csv'' media_id)
             in (elem_append data_bibl rs, conversion_warnings)
           else (data_bibl, conversion_warnings)
      else (data_bibl, conversion_warnings))"

definition data_bibl_elem :: "dataset \<Rightarrow> warnings \<Rightarrow> elem \<times> warnings" where
  "data_bibl_elem dataset conversion_warnings =
     (let dataset_id = get_default (dataset ''Datensatz ID'') ''000'';
          st = (create_tei_element ''bibl'' None [(''type'', ''data'')], conversion_warnings);
          st = csv_entry ''CSV Codes'' ''codes'' ''Data with Codes'' dataset dataset_id st
      in csv_entry ''CSV Labels'' ''labels'' ''Data with Labels'' dataset dataset_id st)"

definition zusatz_rs :: "string \<Rightarrow> string \<Rightarrow> string option \<Rightarrow> elem" where
  \<comment> \<open>the \<open>rs\<close> element of a \<open>Zusatzdatei\<close> entry with a file name\<close>
  "zusatz_rs dataset_id filename title =
     (let rs_type = (if truthy title \<and> contains ''sample'' (lower (the title))
                     then ''sample'' else ''literature'');
          rs_elem = create_tei_element ''rs'' None [(''type'', rs_type)];
          rs_elem = add_title rs_elem (if truthy title then title else Some filename)
                      None None None;
          file_url = add_folder_prefix filename dataset_id;
          mime_type = (if endswith filename ''.pdf'' then ''application/pdf''
                       else ''application/octet-stream'');
          media_id = sanitize_xml_id filename
      in elem_append rs_elem (file_elem ''media'' file_url mime_type media_id))"

definition bild_mime_type :: "string \<Rightarrow> string" where
  \<comment> \<open>\<open>mime_map.get(ext, 'image/jpeg')\<close> for \<open>ext = filename.split('.')[-1].lower()\<close>\<close>
  "bild_mime_type filename =
     (let ext = lower (last (split ''.'' filename))
      in get_default
           (map_of [(''jpg'', ''image/jpeg''), (''jpeg'', ''image/jpeg''),
                    (''png'', ''image/png''), (''pdf'', ''application/pdf'')] ext)
           ''image/jpeg'')"

definition bild_rs :: "string \<Rightarrow> string \<Rightarrow> string option \<Rightarrow> elem" where
  \<comment> \<open>the \<open>rs\<close> element of a \<open>Bild\<close> entry with a file name\<close>
  "bild_rs dataset_id filename title =
     (let rs_type = (if truthy title \<and>
                        (contains ''map'' (lower (the title)) \<or> contains ''karte'' (lower (the title)))
                     then ''map'' else ''scan'');
          rs_elem = create_tei_element ''rs'' None [(''type'', rs_type)];
          rs_elem = add_title rs_elem (if truthy title then title else Some filename)
                      None None None;
          file_url = add_folder_prefix filename dataset_id;
          mime_type = bild_mime_type filename;
          media_id = sanitize_xml_id filename
      in if startswith mime_type ''image/''
         then elem_append rs_elem (file_elem ''graphic'' file_url mime_type media_id)
         else elem_append rs_elem (file_elem ''media'' file_url mime_type media_id))"

type_synonym additional = "elem \<times> bool \<times> warnings"

definition file_step ::
  "(string \<Rightarrow> string \<Rightarrow> string option \<Rightarrow> elem) \<Rightarrow> string \<Rightarrow> dataset \<Rightarrow> string \<Rightarrow>
   additional \<Rightarrow> nat \<Rightarrow> additional" where
  \<comment> \<open>the body of the loop over \<open>Zusatzdatei 1\<close> to \<open>10\<close> and of the loop over \<open>Bild 1\<close> to
      \<open>5\<close>; the state is \<open>additional_bibl\<close>, \<open>has_additional\<close> and the warnings\<close>
  "file_step make_rs name dataset dataset_id st i =
     (let additional_bibl = fst st; has_additional = fst (snd st);
          conversion_warnings = snd (snd st);
          key = name @ '' '' @ str_nat i;
          v = dataset key
      in if truthy v then
           let r = parse_file_entry (the v) key dataset_id conversion_warnings;
               filename = fst (fst r); title = snd (fst r); conversion_warnings = snd r
           in if truthy filename
              then (elem_append additional_bibl (make_rs dataset_id (the filename) title), True,
                    conversion_warnings)
              else (additional_bibl, has_additional, conversion_warnings)
         else (additional_bibl, has_additional, conversion_warnings))"

definition literatur_step :: "dataset \<Rightarrow> additional \<Rightarrow> nat \<Rightarrow> additional" where
  "literatur_step dataset st i =
     (let additional_bibl = fst st; lit_val = dataset (''Literatur '' @ str_nat i) in
      if truthy lit_val then
        (elem_append additional_bibl
           (add_title (create_tei_element ''rs'' None [(''type'', ''literature'')])
              lit_val None None None),
         True, snd (snd st))
      else st)"

definition additional_bibl_elem :: "dataset \<Rightarrow> warnings \<Rightarrow> additional" where
  "additional_bibl_elem dataset conversion_warnings =
     (let dataset_id = get_default (dataset ''Datensatz ID'') ''000'';
          st = (create_tei_element ''bibl'' None [(''type'', ''additional'')], False,
                conversion_warnings);
          st = foldl (file_step zusatz_rs ''Zusatzdatei'' dataset dataset_id) st [1..<11];
          st = foldl (file_step bild_rs ''Bild'' dataset dataset_id) st [1..<6]
      in foldl (literatur_step dataset) st [1..<5])"

definition source_desc_elem :: "dataset \<Rightarrow> warnings \<Rightarrow> elem \<times> warnings" where
  "source_desc_elem dataset conversion_warnings =
     (let source_desc = create_tei_element ''sourceDesc'' None [];
          source_desc = elem_append source_desc (source_bibl_elem dataset);
          source_desc =
            (if get_default (dataset ''Zitierempfehlung'') [] \<noteq> []
             then elem_append source_desc (citation_bibl_elem dataset) else source_desc);
          d = data_bibl_elem dataset conversion_warnings;
          source_desc = elem_append source_desc (fst d);
          a = additional_bibl_elem dataset (snd d);
          source_desc = (if fst (snd a) then elem_append source_desc (fst a) else source_desc)
      in (source_desc, snd (snd a)))"

definition prefix_def :: "string \<Rightarrow> string \<Rightarrow> string \<Rightarrow> string \<Rightarrow> elem" where
  "prefix_def ident match_pattern replacement_pattern p_text =
     elem_append
       (create_tei_element ''prefixDef'' None
          [(''ident'', ident), (''matchPattern'', match_pattern),
           (''replacementPattern'', replacement_pattern)])
       (create_tei_element ''p'' (Some p_text) [])"

definition encoding_desc_elem :: "template_data \<Rightarrow> elem" where
  "encoding_desc_elem template_data =
     (let project_desc = create_tei_element ''projectDesc'' None [];
          project_desc =
            (case tpl_project_context_ref template_data of
               None \<Rightarrow> project_desc
             | Some ref_data \<Rightarrow>
                 elem_append project_desc
                   (elem_append (create_tei_element ''ab'' None [])
                      (create_tei_element ''ref'' (cr_text ref_data)
                         [(''target'', cr_target ref_data), (''type'', cr_type ref_data)])));
          project_desc = elem_extend project_desc
            (map (\<lambda>p_text. create_tei_element ''p'' (Some p_text) [])
                 (get_default (tpl_project_desc_paragraphs template_data) []));
          list_prefix = elem_extend (create_tei_element ''listPrefixDef'' None [])
            [prefix_def ''marcrelator'' ''([a-z]+)'' ''http://id.loc.gov/vocabulary/relators/$1''
               ''Taxonomie Rollen MARC'',
             prefix_def ''dcterms'' ''([a-z]+)'' ''http://purl.org/dc/terms/$1'' ''DCterms'',
             prefix_def ''wd'' (''(Q'' @ [CHR 0x5C] @ ''d+)'') ''https://www.wikidata.org/entity/$1''
               ''Wikidata'']
      in elem_extend (create_tei_element ''encodingDesc'' None []) [project_desc, list_prefix])"

definition language_elem :: "string \<Rightarrow> elem" where
  \<comment> \<open>the body of the loop over the language codes\<close>
  "language_elem code =
     (let lang_code = strip code;
          lang_name = get_default
            (map_of [(''sr'', ''Serbian''), (''sq'', ''Albanian''), (''en'', ''English''),
                     (''de'', ''German''), (''hy'', ''Armenian''), (''tr'', ''Turkish'')] lang_code)
            (upper lang_code)
      in create_tei_element ''language'' (Some lang_name) [(''ident'', lang_code)])"

definition profile_desc_elem :: "dataset \<Rightarrow> elem" where
  "profile_desc_elem dataset =
     (let lang_usage = elem_extend (create_tei_element ''langUsage'' None [])
            (map language_elem (split '','' (get_default (dataset ''Sprachcodes'') ''en'')));
          kw_text = get_default (dataset (''Schlagw'' @ [CHR 0xF6] @ ''rter'')) [];
          kw_list = elem_extend (create_tei_element ''list'' None [])
            (map (\<lambda>keyword. elem_append (create_tei_element ''item'' None [])
                                (create_tei_element ''term'' (Some keyword) []))
                 (filter (\<lambda>keyword. keyword \<noteq> []) (map strip (split '','' kw_text))));
          keywords = elem_append (create_tei_element ''keywords'' None []) kw_list;
          text_class = elem_append (create_tei_element ''textClass'' None []) keywords
      in elem_extend (create_tei_element ''profileDesc'' None []) [lang_usage, text_class])"

definition text_elem :: "dataset \<Rightarrow> elem" where
  "text_elem dataset =
     (let country = get_default (dataset ''Land'') ''COUNTRY'';
          year_val = dataset ''Jahr'';
          head_text = get_default (dataset ([CHR 0xDC] @ ''berschrift''))
                        (country @ '' '' @ get_default year_val ''None'');
          body = elem_append (create_tei_element ''body'' None [])
                   (create_tei_element ''head'' (Some head_text) []);
          description = get_default (dataset ''Beschreibung'') [];
          body =
            (if description \<noteq> [] then
               let paragraphs = (if contains [CHR 0x0A, CHR 0x0A] description
                                 then split [CHR 0x0A, CHR 0x0A] description else [description])
               in elem_extend body
                    (map (\<lambda>para. create_tei_element ''p'' (Some (strip para)) [])
                         (filter (\<lambda>para. strip para \<noteq> []) paragraphs))
             else elem_append body (create_tei_element ''p'' (Some ''Description pending.'') []));
          notes = get_default (dataset ''Anmerkungen'') [];
          body = elem_append body
                   (create_tei_element ''note''
                      (Some (if notes \<noteq> [] then notes else ''No additional notes.'')) [])
      in elem_append (create_tei_element ''text'' None []) body)"

definition create_tei_document :: "dataset \<Rightarrow> template_data \<Rightarrow> warnings \<Rightarrow> elem \<times> warnings" where
  "create_tei_document dataset template_data conversion_warnings =
     (let s = source_desc_elem dataset conversion_warnings;
          file_desc = elem_extend (create_tei_element ''fileDesc'' None [])
            [title_stmt_elem dataset template_data, pub_stmt_elem dataset template_data,
             series_stmt_elem template_data, fst s];
          header = elem_extend (create_tei_element ''teiHeader'' None [(xml_lang, ''en'')])
            [file_desc, encoding_desc_elem template_data, profile_desc_elem dataset];
          root = elem_extend (create_tei_element ''TEI'' None []) [header, text_elem dataset]
      in (root, snd s))"

definition author_list :: "string \<Rightarrow> string list" where
  \<comment> \<open>the names of a clause: \<open>and\<close> between spaces counts as a comma, the clause is cut at
      the commas, and the pieces are stripped and kept when not empty\<close>
  "author_list clause =
     filter (\<lambda>a. a \<noteq> []) (map strip (split '','' (replace '' and '' '', '' (strip clause))))"

definition name_tokens :: "string \<Rightarrow> string list" where
  \<comment> \<open>the tokens of a name: its runs of characters that are not white space\<close>
  "name_tokens author_name = split_ws (strip author_name)"

definition appends_warnings :: "(additional \<Rightarrow> nat \<Rightarrow> additional) \<Rightarrow> bool" where
  \<comment> \<open>a loop body only appends to the warning list and reads nothing from it\<close>
  "appends_warnings step =
     (\<forall>e b ws i. step (e, b, ws) i =
        (fst (step (e, b, []) i), fst (snd (step (e, b, []) i)), ws @ snd (snd (step (e, b, []) i))))"

section \<open>The main loop of the converter\<close>

text \<open>
  \<open>prettify_xml\<close> serialises the tree with ElementTree and parses the result again with
  \<open>minidom\<close>. ElementTree writes every character of a text, a tail or an attribute value
  (it escapes the markup characters only), and the parser raises \<open>ExpatError\<close> on a character
  that XML 1.0 does not allow: a control character other than tab, line feed and carriage
  return. The indented text that \<open>minidom\<close> returns for a tree it accepts is a parameter of
  the model (\<open>render\<close>), and so is whether a file can be opened for writing (\<open>can_open\<close>).
\<close>

definition xml_char :: "char \<Rightarrow> bool" where
  "xml_char c = (c \<in> set [CHR 0x09, CHR 0x0A, CHR 0x0D] \<or> 32 \<le> (of_char c :: nat))"

fun well_formed :: "elem \<Rightarrow> bool" where
  "well_formed (Element tg attrib txt tail cs) =
     (list_all xml_char (get_default txt []) \<and> list_all xml_char (get_default tail []) \<and>
      list_all (\<lambda>kv. list_all xml_char (snd kv)) attrib \<and> list_all well_formed cs)"

record env =
  render :: "elem \<Rightarrow> string"
  can_open :: "string \<Rightarrow> string \<Rightarrow> bool"

definition prettify_xml :: "env \<Rightarrow> elem \<Rightarrow> py_error + string" where
  "prettify_xml env e = (if well_formed e then Inr (render env e) else Inl ExpatError)"

definition xml_prolog :: string where
  \<comment> \<open>the two lines that \<open>main\<close> puts before the rendered tree\<close>
  "xml_prolog =
     ''<?xml version='' @ [CHR 0x22] @ ''1.0'' @ [CHR 0x22] @ '' encoding='' @ [CHR 0x22] @
     ''UTF-8'' @ [CHR 0x22] @ ''?>'' @ [CHR 0x0A] @
     ''<?xml-model href='' @ [CHR 0x22] @ ''histdem.rng'' @ [CHR 0x22] @ '' type='' @ [CHR 0x22] @
     ''application/xml'' @ [CHR 0x22] @ '' schematypens='' @ [CHR 0x22] @
     ''http://relaxng.org/ns/structure/1.0'' @ [CHR 0x22] @ ''?>'' @ [CHR 0x0A]"

definition process_dataset ::
  "env \<Rightarrow> template_data \<Rightarrow> string \<Rightarrow> nat \<Rightarrow> dataset \<Rightarrow> warnings \<Rightarrow>
   (py_error + string \<times> string) \<times> warnings" where
  \<comment> \<open>the body of the loop of \<open>main\<close> for the dataset with index \<open>i\<close>: the name and the content
      of the file it writes under \<open>output_dir\<close>, or the exception it raises; and the warnings\<close>
  "process_dataset env template_data output_dir i dataset conversion_warnings =
     (let dataset_id = get_default (dataset ''Datensatz ID'') (str_nat (i + 1));
          r = create_tei_document dataset template_data conversion_warnings;
          tei_root = fst r;
          conversion_warnings = snd r
      in case prettify_xml env tei_root of
           Inl e \<Rightarrow> (Inl e, conversion_warnings)
         | Inr pretty \<Rightarrow>
             let parts = split_max1 (''?>'' @ [CHR 0x0A]) pretty in
             if length parts < 2 then (Inl IndexError, conversion_warnings)
             else
               let xml_content = xml_prolog @ parts ! 1;
                   output_file = dataset_id @ ''_tei.xml''
               in if can_open env output_dir output_file
                  then (Inr (output_file, xml_content), conversion_warnings)
                  else (Inl OSError, conversion_warnings))"

type_synonym run = "(string \<times> string) list \<times> warnings"

fun convert_loop ::
  "env \<Rightarrow> template_data \<Rightarrow> string \<Rightarrow> nat \<Rightarrow> dataset list \<Rightarrow> run \<Rightarrow> run \<times> py_error option" where
  \<comment> \<open>the loop of \<open>main\<close> from the index \<open>i\<close> on. The state is the files written so far and the
      warnings. No statement of the loop catches an exception: the first one ends the run.\<close>
  "convert_loop env template_data output_dir i [] st = (st, None)"
| "convert_loop env template_data output_dir i (dataset # datasets) st =
     (case process_dataset env template_data output_dir i dataset (snd st) of
        (Inl e, ws) \<Rightarrow> ((fst st, ws), Some e)
      | (Inr f, ws) \<Rightarrow> convert_loop env template_data output_dir (i + 1) datasets (fst st @ [f], ws))"

definition convert_main ::
  "env \<Rightarrow> template_data \<Rightarrow> string \<Rightarrow> string list list \<Rightarrow> run \<times> py_error option" where
  \<comment> \<open>\<open>main\<close> of the converter, for the rows of the table and the template data that
      \<open>extract_template_data\<close> returned\<close>
  "convert_main env template_data output_dir rows =
     (case parse_csv_column rows of
        Inl e \<Rightarrow> (([], []), Some e)
      | Inr datasets \<Rightarrow> convert_loop env template_data output_dir 0 datasets ([], []))"

definition no_template :: template_data where
  \<comment> \<open>the empty dictionary that \<open>extract_template_data\<close> returns when the exemplar is absent
      or cannot be parsed\<close>
  "no_template =
     \<lparr>tpl_publisher_name = None, tpl_publisher_corresp = None, tpl_authority_name = None,
      tpl_authority_corresp = None, tpl_distributor_name = None, tpl_distributor_ref = None,
      tpl_license_text = None, tpl_license_target = None, tpl_pub_place = None,
      tpl_funder_name = None, tpl_funder_ref = None, tpl_funder_num = None,
      tpl_series_titles = None, tpl_project_director = None, tpl_research_team = None,
      tpl_project_desc_paragraphs = None, tpl_project_context_ref = None\<rparr>"

definition plain_env :: env where
  \<comment> \<open>an environment for the examples: every file can be written, and the rendering of a
      tree is an XML declaration and one line\<close>
  "plain_env =
     \<lparr>render = (\<lambda>e. ''<?xml version='' @ [CHR 0x22] @ ''1.0'' @ [CHR 0x22] @ ''?>'' @
                       [CHR 0x0A] @ ''<TEI/>'' @ [CHR 0x0A]),
      can_open = (\<lambda>output_dir output_file. True)\<rparr>"

definition sample_rows :: "string list list" where
  \<comment> \<open>a table for the examples, with two datasets; the note of the first one holds the
      control character \<open>0x01\<close>\<close>
  "sample_rows =
     [[''Legende''], [''FELDNAME'', ''TITEL'', ''Datensatz 1'', ''Datensatz 2''], [], [],
      [''Datensatz ID'', [], ''1'', ''2''],
      [''Anmerkungen'', [], ''a'' @ [CHR 0x01] @ ''b'', ''keine'']]"

section \<open>The auditor\<close>

definition first_part :: "string \<Rightarrow> string" where
  \<comment> \<open>\<open>e.split(' - ')[0].strip() if ' - ' in e else e.strip()\<close>\<close>
  "first_part e = (if contains '' - '' e then strip (hd (split '' - '' e)) else strip e)"

definition validate_csv_labels_match_codes :: "string \<Rightarrow> string \<Rightarrow> bool \<times> string list" where
  "validate_csv_labels_match_codes codes_entry labels_entry =
     (if codes_entry = [] \<or> labels_entry = [] then (True, [])
      else
        let codes_file = first_part codes_entry;
            labels_file = first_part labels_entry;
            issues =
              (if \<not> endswith codes_file ''_codes.csv''
               then [''Codes-Dateiname endet nicht mit '_codes.csv': '' @ [CHR 0x27] @
                     codes_file @ [CHR 0x27]]
               else []);
            issues = issues @
              (if \<not> endswith labels_file ''_labels.csv''
               then [''Labels-Dateiname endet nicht mit '_labels.csv': '' @ [CHR 0x27] @
                     labels_file @ [CHR 0x27]]
               else []);
            codes_base = replace ''_codes.csv'' [] codes_file;
            labels_base = replace ''_codes.csv'' [] (replace ''_labels.csv'' [] labels_file);
            issues = issues @
              (if codes_base \<noteq> labels_base
               then [''Basis-Dateinamen stimmen nicht '' @ [CHR 0xFC] @ ''berein: codes='' @
                     [CHR 0x27] @ codes_base @ [CHR 0x27] @ '' vs labels='' @
                     [CHR 0x27] @ labels_base @ [CHR 0x27]]
               else [])
        in (issues = [], issues))"

definition required_fields :: "string list" where
  "required_fields =
     [''Datensatz ID'', ''Datensatz Titel'', ''Land'', ''PID'', ''Anzahl Personen'',
      ''Anzahl Haushalte'', ''Zitierempfehlung'', ''Schlagw'' @ [CHR 0xF6] @ ''rter'',
      ''Sprachcodes'', [CHR 0xDC] @ ''berschrift'', ''Beschreibung'']"

definition validate_required_fields :: "dataset \<Rightarrow> bool \<times> string list" where
  "validate_required_fields dataset =
     (let issues =
            concat (map (\<lambda>field.
                      if strip (get_default (dataset field) []) = []
                      then [''Pflichtfeld '' @ [CHR 0x27] @ field @ [CHR 0x27] @ '' ist leer'']
                      else [])
                    required_fields)
      in (issues = [], issues))"

text \<open>
  The auditor looks files up on disk. What exists is a parameter: whether a folder exists
  under the base path, and whether a file exists in a folder.
\<close>

record files =
  folder_exists :: "string \<Rightarrow> bool"
  file_exists :: "string \<Rightarrow> string \<Rightarrow> bool"

definition check_file_exists :: "files \<Rightarrow> string \<Rightarrow> string \<Rightarrow> bool \<times> string" where
  "check_file_exists fs filename dataset_id =
     (if filename = [] then (True, [])
      else
        case map_of DATASET_FOLDERS dataset_id of
          None \<Rightarrow> (False, ''Kein Ordner-Mapping f'' @ [CHR 0xFC] @ ''r Dataset '' @ dataset_id @
                            '' gefunden'')
        | Some folder \<Rightarrow>
            if folder = [] then
              (False, ''Kein Ordner-Mapping f'' @ [CHR 0xFC] @ ''r Dataset '' @ dataset_id @
                      '' gefunden'')
            else if \<not> folder_exists fs folder then
              (False, ''Ordner '' @ [CHR 0x27] @ folder @ [CHR 0x27] @ '' existiert nicht'')
            else if \<not> file_exists fs folder filename then
              (False, ''Datei nicht gefunden: '' @ folder @ ''/'' @ filename)
            else (True, folder @ ''/'' @ filename))"

definition file_field_issue :: "files \<Rightarrow> dataset \<Rightarrow> string \<Rightarrow> string \<Rightarrow> string list" where
  \<comment> \<open>the check that \<open>validate_files_exist\<close> makes for one file-bearing field\<close>
  "file_field_issue fs dataset dataset_id key =
     (let v = get_default (dataset key) [] in
      if v \<noteq> [] then
        let filename = first_part v in
        if filename \<noteq> [] then
          let r = check_file_exists fs filename dataset_id in
          if \<not> fst r then [key @ '': '' @ snd r] else []
        else []
      else [])"

definition validate_files_exist :: "files \<Rightarrow> dataset \<Rightarrow> string \<Rightarrow> bool \<times> string list" where
  "validate_files_exist fs dataset dataset_id =
     (let issues =
            file_field_issue fs dataset dataset_id ''CSV Codes'' @
            file_field_issue fs dataset dataset_id ''CSV Labels'' @
            concat (map (\<lambda>i. file_field_issue fs dataset dataset_id (''Zusatzdatei '' @ str_nat i))
                        [1..<11]) @
            concat (map (\<lambda>i. file_field_issue fs dataset dataset_id (''Bild '' @ str_nat i))
                        [1..<6])
      in (issues = [], issues))"

definition is_lower :: "char \<Rightarrow> bool" where
  "is_lower c =
     (let n = of_char c :: nat
      in (97 \<le> n \<and> n \<le> 122) \<or> n = 170 \<or> n = 181 \<or> n = 186 \<or>
         (223 \<le> n \<and> n \<le> 246) \<or> 248 \<le> n)"

definition is_upper :: "char \<Rightarrow> bool" where
  "is_upper c =
     (let n = of_char c :: nat
      in (65 \<le> n \<and> n \<le> 90) \<or> (192 \<le> n \<and> n \<le> 214) \<or> (216 \<le> n \<and> n \<le> 222))"

definition islower :: "string \<Rightarrow> bool" where
  \<comment> \<open>\<open>s.islower()\<close>: a lower-case letter and no upper-case letter\<close>
  "islower s = (list_ex is_lower s \<and> \<not> list_ex is_upper s)"

definition pid_format_ok :: "string \<Rightarrow> bool" where
  \<comment> \<open>\<open>re.match(r'^o:histdem\.\d+$', pid)\<close>; the \<open>$\<close> also matches before a final line feed\<close>
  "pid_format_ok pid =
     (let r = (if pid \<noteq> [] \<and> last pid = CHR 0x0A then butlast pid else pid)
      in startswith r ''o:histdem.'' \<and> drop 10 r \<noteq> [] \<and> list_all is_decimal (drop 10 r))"

definition entry_issues :: "dataset \<Rightarrow> string \<Rightarrow> string list" where
  \<comment> \<open>\<open>validate_file_entry\<close> for one field, each issue with the field name before it\<close>
  "entry_issues dataset key =
     (let r = validate_file_entry (get_default (dataset key) []) key in
      if \<not> fst r then map (\<lambda>issue. key @ '': '' @ issue) (snd r) else [])"

definition dataset_issues :: "files \<Rightarrow> dataset \<Rightarrow> string list" where
  \<comment> \<open>the list \<open>dataset_issues\<close> at the end of the body of the loop of \<open>main\<close>\<close>
  "dataset_issues fs dataset =
     (let dataset_id = get_default (dataset ''Datensatz ID'') ''Unknown'';
          r = validate_required_fields dataset;
          issues = (if \<not> fst r then snd r else []);
          csv_codes = get_default (dataset ''CSV Codes'') [];
          issues = issues @ entry_issues dataset ''CSV Codes'';
          csv_labels = get_default (dataset ''CSV Labels'') [];
          issues = issues @ entry_issues dataset ''CSV Labels'';
          issues = issues @
            (if csv_codes \<noteq> [] \<and> csv_labels \<noteq> [] then
               let r = validate_csv_labels_match_codes csv_codes csv_labels in
               if \<not> fst r then snd r else []
             else []);
          r = validate_date_range (get_default (dataset ''Jahr'') [])
                (get_default (dataset ''Datum Von'') []) (get_default (dataset ''Datum Bis'') []);
          issues = issues @ (if \<not> fst r then snd r else []);
          issues = issues @
            concat (map (\<lambda>i. entry_issues dataset (''Zusatzdatei '' @ str_nat i)) [1..<11]);
          issues = issues @
            concat (map (\<lambda>i. entry_issues dataset (''Bild '' @ str_nat i)) [1..<6]);
          pid = get_default (dataset ''PID'') [];
          issues = issues @
            (if pid \<noteq> [] \<and> \<not> pid_format_ok pid
             then [''PID-Format inkorrekt: '' @ [CHR 0x27] @ pid @ [CHR 0x27] @
                   '' (erwartet: o:histdem.NNN)'']
             else []);
          issues = issues @
            (if pid \<noteq> [] \<and> dataset_id \<noteq> [] \<and> pid \<noteq> ''o:histdem.'' @ dataset_id
             then [''PID '' @ [CHR 0x27] @ pid @ [CHR 0x27] @ '' stimmt nicht mit Datensatz ID '' @
                   [CHR 0x27] @ dataset_id @ [CHR 0x27] @ '' '' @ [CHR 0xFC] @
                   ''berein (erwartet: o:histdem.'' @ dataset_id @ '')'']
             else []);
          lang_codes = get_default (dataset ''Sprachcodes'') [];
          issues = issues @
            (if lang_codes \<noteq> [] then
               concat (map (\<lambda>code.
                         if length code \<noteq> 2 \<or> \<not> islower code
                         then [''Sprachcode '' @ [CHR 0x27] @ code @ [CHR 0x27] @
                               '' scheint nicht im ISO 639-1 Format zu sein'']
                         else [])
                       (map strip (split '','' lang_codes)))
             else []);
          r = validate_files_exist fs dataset dataset_id
      in issues @ (if \<not> fst r then snd r else []))"

definition count_issues :: "files \<Rightarrow> nat \<times> nat \<Rightarrow> dataset \<Rightarrow> nat \<times> nat" where
  \<comment> \<open>the end of the body of the loop: the state is \<open>total_issues\<close> and
      \<open>datasets_with_issues\<close>\<close>
  "count_issues fs st dataset =
     (if dataset_issues fs dataset \<noteq> []
      then (fst st + length (dataset_issues fs dataset), snd st + 1)
      else st)"

definition audit_loop :: "files \<Rightarrow> dataset list \<Rightarrow> nat \<times> nat" where
  "audit_loop fs datasets = foldl (count_issues fs) (0, 0) datasets"

definition validate_main :: "files \<Rightarrow> dataset list \<Rightarrow> nat" where
  \<comment> \<open>the value that \<open>main\<close> of the auditor returns and the process exits with, for the
      records that \<open>main\<close> read from the table\<close>
  "validate_main fs datasets = (if fst (audit_loop fs datasets) = 0 then 0 else 1)"

definition no_files :: files where
  \<comment> \<open>a disk for the examples, with none of the folders\<close>
  "no_files = \<lparr>folder_exists = (\<lambda>folder. False), file_exists = (\<lambda>folder filename. False)\<rparr>"

definition sample_record :: dataset where
  \<comment> \<open>a record for the examples, with the eleven required fields\<close>
  "sample_record =
     [''Datensatz ID'' \<mapsto> ''999'', ''Datensatz Titel'' \<mapsto> ''Titel'', ''Land'' \<mapsto> ''Serbia'',
      ''PID'' \<mapsto> ''o:histdem.999'', ''Anzahl Personen'' \<mapsto> ''10'', ''Anzahl Haushalte'' \<mapsto> ''2'',
      ''Zitierempfehlung'' \<mapsto> ''Anna Huber. *Titel*. 2014.'',
      ''Schlagw'' @ [CHR 0xF6] @ ''rter'' \<mapsto> ''census'', ''Sprachcodes'' \<mapsto> ''sr, de'',
      [CHR 0xDC] @ ''berschrift'' \<mapsto> ''Serbia 1863'', ''Beschreibung'' \<mapsto> ''Text'']"

section \<open>Properties of the string functions\<close>

lemma dropWhile_all_space: "(\<forall>c\<in>set (dropWhile P s). P c) \<longleftrightarrow> dropWhile P s = []"
proof
  assume a: "\<forall>c\<in>set (dropWhile P s). P c"
  show "dropWhile P s = []"
  proof (rule ccontr)
    assume n: "dropWhile P s \<noteq> []"
    then have "\<not> P (hd (dropWhile P s))" by (rule hd_dropWhile)
    moreover have "hd (dropWhile P s) \<in> set (dropWhile P s)" using n by simp
    ultimately show False using a by blast
  qed
next
  assume e: "dropWhile P s = []"
  show "\<forall>c\<in>set (dropWhile P s). P c" unfolding e by simp
qed

lemma strip_empty_iff: "strip s = [] \<longleftrightarrow> (\<forall>c\<in>set s. is_space c)"
proof -
  have "strip s = [] \<longleftrightarrow> (\<forall>c\<in>set (dropWhile is_space s). is_space c)"
    by (simp add: strip_def lstrip_def rstrip_def dropWhile_eq_Nil_conv)
  also have "\<dots> \<longleftrightarrow> dropWhile is_space s = []" by (rule dropWhile_all_space)
  also have "\<dots> \<longleftrightarrow> (\<forall>c\<in>set s. is_space c)" by (simp add: dropWhile_eq_Nil_conv)
  finally show ?thesis .
qed

lemma rstrip_last: "rstrip s \<noteq> [] \<Longrightarrow> \<not> is_space (last (rstrip s))"
  unfolding rstrip_def using hd_dropWhile[of is_space "rev s"]
  by (simp add: last_rev)

lemma rstrip_hd: "s \<noteq> [] \<Longrightarrow> \<not> is_space (hd s) \<Longrightarrow> rstrip s \<noteq> [] \<and> hd (rstrip s) = hd s"
proof (induction s rule: rev_induct)
  case Nil then show ?case by simp
next
  case (snoc x xs)
  show ?case
  proof (cases "is_space x")
    case False
    then show ?thesis by (simp add: rstrip_def)
  next
    case True
    then have xs: "xs \<noteq> []" using snoc.prems by auto
    then have "hd (xs @ [x]) = hd xs" by simp
    moreover have "rstrip (xs @ [x]) = rstrip xs" using True by (simp add: rstrip_def)
    ultimately show ?thesis using snoc xs by simp
  qed
qed

lemma strip_hd: "strip s \<noteq> [] \<Longrightarrow> \<not> is_space (hd (strip s))"
proof -
  assume n: "strip s \<noteq> []"
  then have l: "lstrip s \<noteq> []" by (auto simp: strip_def rstrip_def)
  then have h: "\<not> is_space (hd (lstrip s))" unfolding lstrip_def by (rule hd_dropWhile)
  from rstrip_hd[OF l h] show ?thesis using h by (simp add: strip_def)
qed

lemma strip_last: "strip s \<noteq> [] \<Longrightarrow> \<not> is_space (last (strip s))"
  unfolding strip_def by (rule rstrip_last)

lemma find_split_Some: "find_split sep s = Some (a, b) \<Longrightarrow> s = a @ sep @ b"
proof (induction s arbitrary: a)
  case Nil then show ?case by (simp split: if_splits)
next
  case (Cons x xs)
  show ?case
  proof (cases "startswith (x # xs) sep")
    case True
    then show ?thesis using Cons.prems
      by (simp add: startswith_def) (metis append_take_drop_id)
  next
    case False
    then show ?thesis using Cons by (auto split: option.splits)
  qed
qed

lemma find_split_None: "find_split sep s = None \<longleftrightarrow> \<not> contains sep s"
  by (induction s) (auto split: option.splits)

section \<open>Properties of the field-entry grammar\<close>

lemma split_parts_nonblank:
  assumes s: "s \<noteq> []" and h: "\<not> is_space (hd s)" and l: "\<not> is_space (last s)"
    and f: "find_split '' - '' s = Some (a, b)"
  shows "strip a \<noteq> [] \<and> strip b \<noteq> []"
proof -
  have eq: "s = a @ '' - '' @ b" using f by (rule find_split_Some)
  have sp: "is_space (CHR '' '')" by (simp add: is_space_def)
  have a: "a \<noteq> []"
  proof
    assume "a = []"
    then have "hd s = CHR '' ''" using eq by simp
    then show False using h sp by simp
  qed
  have b: "b \<noteq> []"
  proof
    assume "b = []"
    then have "last s = CHR '' ''" using eq by simp
    then show False using l sp by simp
  qed
  have "hd a = hd s" using a eq by (metis hd_append2)
  then have "\<exists>c\<in>set a. \<not> is_space c" using a h by (metis hd_in_set)
  moreover have "last b = last s" using b eq by (metis last_appendR append_is_Nil_conv)
  then have "\<exists>c\<in>set b. \<not> is_space c" using b l by (metis last_in_set)
  ultimately show ?thesis by (simp add: strip_empty_iff)
qed

lemma split_max1_Some: "find_split sep s = Some (a, b) \<Longrightarrow> split_max1 sep s = [a, b]"
  by (simp add: split_max1_def)

lemma contains_find_split: "contains sep s \<Longrightarrow> \<exists>a b. find_split sep s = Some (a, b)"
  using find_split_None[of sep s] by (cases "find_split sep s") auto

lemma parse_file_entry_blank:
  "strip e = [] \<Longrightarrow> parse_file_entry e f d ws = ((None, None), ws)"
  by (simp add: parse_file_entry_def)

lemma strip_nonempty_arg: "strip e \<noteq> [] \<Longrightarrow> e \<noteq> []"
  by (auto simp: strip_def lstrip_def rstrip_def)

lemma parse_file_entry_no_sep:
  "strip e \<noteq> [] \<Longrightarrow> \<not> contains '' - '' (strip e) \<Longrightarrow>
   parse_file_entry e f d ws =
     ((Some (strip e), None),
      ws @ [''WARNUNG Dataset '' @ d @ '': '' @ f @
            '' - Fehlender Titel (Format sollte sein: 'dateiname - Titel'). Gefunden: ''
            @ [CHR 0x27] @ strip e @ [CHR 0x27]])"
  using strip_nonempty_arg[of e] by (simp add: parse_file_entry_def Let_def)

lemma parse_file_entry_sep:
  assumes n: "strip e \<noteq> []" and f: "find_split '' - '' (strip e) = Some (a, b)"
  shows "parse_file_entry e f d ws = ((Some (strip a), Some (strip b)), ws)"
    and "strip a \<noteq> []" and "strip b \<noteq> []"
proof -
  have ab: "strip a \<noteq> [] \<and> strip b \<noteq> []"
    using split_parts_nonblank[OF n strip_hd[OF n] strip_last[OF n] f] .
  then show "strip a \<noteq> []" and "strip b \<noteq> []" by simp_all
  have c: "contains '' - '' (strip e)" using f find_split_None[of "'' - ''" "strip e"] by simp
  show "parse_file_entry e f d ws = ((Some (strip a), Some (strip b)), ws)"
    using n c ab strip_nonempty_arg[OF n] split_max1_Some[OF f]
    by (simp add: parse_file_entry_def Let_def)
qed

lemma startswith_space: "startswith s '' '' \<longleftrightarrow> s \<noteq> [] \<and> hd s = CHR '' ''"
  by (cases s) (auto simp: startswith_def)

lemma endswith_space: "endswith s '' '' \<longleftrightarrow> s \<noteq> [] \<and> last s = CHR '' ''"
proof (cases s rule: rev_cases)
  case Nil then show ?thesis by (simp add: endswith_def)
next
  case (snoc xs x) then show ?thesis by (auto simp: endswith_def)
qed

lemma stripped_no_outer_space:
  assumes "strip s \<noteq> []"
  shows "\<not> startswith (strip s) '' ''" and "\<not> endswith (strip s) '' ''"
proof -
  have sp: "is_space (CHR '' '')" by (simp add: is_space_def)
  show "\<not> startswith (strip s) '' ''" using strip_hd[OF assms] sp by (auto simp: startswith_space)
  show "\<not> endswith (strip s) '' ''" using strip_last[OF assms] sp by (auto simp: endswith_space)
qed

lemma validate_file_entry_blank: "strip e = [] \<Longrightarrow> validate_file_entry e f = (True, [])"
  by (simp add: validate_file_entry_def)

lemma validate_file_entry_no_sep:
  assumes n: "strip e \<noteq> []" and c: "\<not> contains '' - '' (strip e)"
  shows "file_entry_filename (strip e) = strip e" and "snd (validate_file_entry e f) \<noteq> []"
  using n c strip_nonempty_arg[OF n]
  by (simp_all add: validate_file_entry_def file_entry_filename_def Let_def)

lemma validate_file_entry_sep:
  assumes n: "strip e \<noteq> []" and f: "find_split '' - '' (strip e) = Some (a, b)"
  shows "file_entry_filename (strip e) = strip a"
    and "(snd (validate_file_entry e f) \<noteq> []) = (CHR ''.'' \<notin> set (strip a))"
proof -
  have c: "contains '' - '' (strip e)" using f find_split_None[of "'' - ''" "strip e"] by simp
  have ab: "strip a \<noteq> []" "strip b \<noteq> []"
    using split_parts_nonblank[OF n strip_hd[OF n] strip_last[OF n] f] by simp_all
  show fn: "file_entry_filename (strip e) = strip a"
    using c split_max1_Some[OF f] by (simp add: file_entry_filename_def)
  show "(snd (validate_file_entry e f) \<noteq> []) = (CHR ''.'' \<notin> set (strip a))"
    using n c ab fn strip_nonempty_arg[OF n] split_max1_Some[OF f]
      stripped_no_outer_space[OF ab(1)]
    by (simp add: validate_file_entry_def Let_def)
qed

text \<open>
  C3 (as amended). The auditor checks one thing more than the converter: that the file name
  holds a \<open>.\<close>. So \<open>validate_file_entry\<close> reports an issue exactly when \<open>parse_file_entry\<close>
  records a warning or the file name has no extension; and for every entry that is not blank
  both extract the same file name.
\<close>

theorem validate_file_entry_agrees:
  "((snd (validate_file_entry e f) \<noteq> []) =
      (snd (parse_file_entry e f d ws) \<noteq> ws \<or>
       (strip e \<noteq> [] \<and> CHR ''.'' \<notin> set (file_entry_filename (strip e))))) \<and>
   (strip e \<noteq> [] \<longrightarrow>
      fst (fst (parse_file_entry e f d ws)) = Some (file_entry_filename (strip e)))"
proof (cases "strip e = []")
  case True
  then show ?thesis by (simp add: validate_file_entry_blank parse_file_entry_blank)
next
  case n: False
  show ?thesis
  proof (cases "contains '' - '' (strip e)")
    case False
    show ?thesis
      using n validate_file_entry_no_sep[OF n False] parse_file_entry_no_sep[OF n False]
      by simp
  next
    case True
    then obtain a b where f: "find_split '' - '' (strip e) = Some (a, b)"
      using contains_find_split by blast
    show ?thesis
      using n validate_file_entry_sep[OF n f] parse_file_entry_sep[OF n f]
      by simp
  qed
qed

theorem validate_file_entry_agrees_witness:
  "strip ''147_codes.csv - Codes'' \<noteq> [] \<and>
   fst (fst (parse_file_entry ''147_codes.csv - Codes'' ''CSV Codes'' ''147'' [])) =
     Some (file_entry_filename (strip ''147_codes.csv - Codes''))"
proof -
  have h: "strip ''147_codes.csv - Codes'' \<noteq> []" by code_simp
  from validate_file_entry_agrees [of "''147_codes.csv - Codes''" "''CSV Codes''" "''147''" "[]"] h
  show ?thesis by blast
qed

text \<open>
  C3 (as stated) fails: for the entry \<open>README - Title\<close> the converter records no warning,
  and the auditor reports the missing extension.
\<close>

theorem validate_file_entry_extension_counterexample:
  "\<not> ((snd (validate_file_entry ''README - Title'' ''Bild 1'') \<noteq> []) =
        (snd (parse_file_entry ''README - Title'' ''Bild 1'' ''147'' []) \<noteq> []))"
  by code_simp

lemma parse_file_entry_outcomes:
  "parse_file_entry e f d ws = ((None, None), ws) \<or>
   parse_file_entry e f d ws =
     ((Some (strip e), None),
      ws @ [''WARNUNG Dataset '' @ d @ '': '' @ f @
            '' - Fehlender Titel (Format sollte sein: 'dateiname - Titel'). Gefunden: ''
            @ [CHR 0x27] @ strip e @ [CHR 0x27]]) \<or>
   (\<exists>a b. a \<noteq> [] \<and> b \<noteq> [] \<and> parse_file_entry e f d ws = ((Some a, Some b), ws))"
proof (cases "strip e = []")
  case True
  then show ?thesis by (simp add: parse_file_entry_blank)
next
  case n: False
  show ?thesis
  proof (cases "contains '' - '' (strip e)")
    case False
    then show ?thesis using parse_file_entry_no_sep [OF n] by simp
  next
    case True
    then obtain a b where s: "find_split '' - '' (strip e) = Some (a, b)"
      using contains_find_split by blast
    from parse_file_entry_sep [OF n s] show ?thesis by blast
  qed
qed

text \<open>
  C1. The entry \<open> - Title\<close> holds the separator with nothing on its left. The grammar asks
  for no file name, no title and one error. \<open>parse_file_entry\<close> strips the entry before it
  looks for the separator, so it finds none in \<open>- Title\<close>, returns that text as the file
  name and records the warning of a missing title. By \<open>parse_file_entry_outcomes\<close> no entry
  reaches the branch of the empty file name or the branch of the empty title.
\<close>

theorem parse_file_entry_empty_left_side:
  "parse_file_entry '' - Title'' ''Bild 1'' ''147'' [] =
     ((Some ''- Title'', None),
      [''WARNUNG Dataset 147: Bild 1 - Fehlender Titel (Format sollte sein: 'dateiname - Titel'). Gefunden: '- Title'' @ [CHR 0x27]])"
  by code_simp

section \<open>Properties of the date rule\<close>

lemma py_int_empty: "py_int [] = None"
  by (simp add: py_int_def)

text \<open>
  C9. \<open>validate_date_range\<close> reports one issue when exactly one of \<open>Datum Von\<close> and
  \<open>Datum Bis\<close> is present and none when both are absent. When both are present and
  the year and both dates are numeric, it reports an issue exactly when the year is outside
  the closed range. When both are present and the year or a date is not numeric (an empty
  year too), it reports nothing. The two scenarios of the specification are evaluated.
\<close>

theorem validate_date_range_rule:
  "(date_from \<noteq> [] \<and> date_to = [] \<longrightarrow> length (snd (validate_date_range year date_from date_to)) = 1) \<and>
   (date_from = [] \<and> date_to \<noteq> [] \<longrightarrow> length (snd (validate_date_range year date_from date_to)) = 1) \<and>
   (date_from = [] \<and> date_to = [] \<longrightarrow> validate_date_range year date_from date_to = (True, [])) \<and>
   (date_from \<noteq> [] \<and> date_to \<noteq> [] \<and>
    py_int year = Some y \<and> py_int date_from = Some f \<and> py_int date_to = Some t \<longrightarrow>
      (snd (validate_date_range year date_from date_to) \<noteq> []) = (\<not> (f \<le> y \<and> y \<le> t)) \<and>
      fst (validate_date_range year date_from date_to) = (f \<le> y \<and> y \<le> t)) \<and>
   (date_from \<noteq> [] \<and> date_to \<noteq> [] \<and>
    (py_int year = None \<or> py_int date_from = None \<or> py_int date_to = None) \<longrightarrow>
      validate_date_range year date_from date_to = (True, [])) \<and>
   validate_date_range ''1900'' ''1890'' ''1895'' =
     (False, [''Jahr 1900 liegt nicht im Datumsbereich 1890-1895'']) \<and>
   validate_date_range [] ''1890'' ''1895'' = (True, [])"
proof (intro conjI impI)
  show "validate_date_range ''1900'' ''1890'' ''1895'' =
     (False, [''Jahr 1900 liegt nicht im Datumsbereich 1890-1895''])"
    by code_simp
  show "validate_date_range [] ''1890'' ''1895'' = (True, [])"
    by (simp add: validate_date_range_def)
next
  assume "date_from \<noteq> [] \<and> date_to \<noteq> [] \<and>
    py_int year = Some y \<and> py_int date_from = Some f \<and> py_int date_to = Some t"
  moreover from this have "year \<noteq> []" using py_int_empty by auto
  ultimately show "(snd (validate_date_range year date_from date_to) \<noteq> []) = (\<not> (f \<le> y \<and> y \<le> t))"
    and "fst (validate_date_range year date_from date_to) = (f \<le> y \<and> y \<le> t)"
    by (simp_all add: validate_date_range_def)
next
  assume "date_from \<noteq> [] \<and> date_to \<noteq> [] \<and>
    (py_int year = None \<or> py_int date_from = None \<or> py_int date_to = None)"
  then show "validate_date_range year date_from date_to = (True, [])"
    by (auto simp: validate_date_range_def split: option.splits)
qed (simp_all add: validate_date_range_def)

theorem validate_date_range_rule_witness:
  "length (snd (validate_date_range ''1900'' ''1890'' [])) = 1 \<and>
   length (snd (validate_date_range ''1900'' [] ''1895'')) = 1 \<and>
   validate_date_range ''1900'' [] [] = (True, []) \<and>
   py_int ''1892'' = Some 1892 \<and> py_int ''1890'' = Some 1890 \<and> py_int ''1895'' = Some 1895 \<and>
   fst (validate_date_range ''1892'' ''1890'' ''1895'') \<and>
   py_int ''circa 1900'' = None \<and>
   validate_date_range ''circa 1900'' ''1890'' ''1895'' = (True, [])"
proof -
  have y: "py_int ''1892'' = Some 1892" by code_simp
  have f: "py_int ''1890'' = Some 1890" by code_simp
  have t: "py_int ''1895'' = Some 1895" by code_simp
  have n: "py_int ''circa 1900'' = None" by code_simp
  have a: "length (snd (validate_date_range ''1900'' ''1890'' [])) = 1"
    using validate_date_range_rule [of "''1890''" "[]" "''1900''" 0 0 0] by simp
  have b: "length (snd (validate_date_range ''1900'' [] ''1895'')) = 1"
    using validate_date_range_rule [of "[]" "''1895''" "''1900''" 0 0 0] by simp
  have c: "validate_date_range ''1900'' [] [] = (True, [])"
    using validate_date_range_rule [of "[]" "[]" "''1900''" 0 0 0] by simp
  have d: "fst (validate_date_range ''1892'' ''1890'' ''1895'')"
    using validate_date_range_rule [of "''1890''" "''1895''" "''1892''" 1892 1890 1895] y f t
    by simp
  have e: "validate_date_range ''circa 1900'' ''1890'' ''1895'' = (True, [])"
    using validate_date_range_rule [of "''1890''" "''1895''" "''circa 1900''" 0 0 0] n by simp
  show ?thesis using y f t n a b c d e by simp
qed

section \<open>Properties of the inline markup converter\<close>

lemma markdown_parts_source:
  "concat (map part_source (markdown_parts pending s)) = pending @ s"
proof (induction pending s rule: markdown_parts.induct)
  case (1 pending)
  then show ?case by (simp add: part_source_def)
next
  case (2 pending c cs)
  let ?inner = "takeWhile (\<lambda>x. x \<noteq> CHR ''*'') cs"
  let ?rest = "dropWhile (\<lambda>x. x \<noteq> CHR ''*'') cs"
  show ?case
  proof (cases "c = CHR ''*'' \<and> ?inner \<noteq> [] \<and> ?rest \<noteq> []")
    case True
    then have "\<not> (hd ?rest \<noteq> CHR ''*'')" using hd_dropWhile [of "\<lambda>x. x \<noteq> CHR ''*''" cs] by simp
    then have r: "?rest = CHR ''*'' # tl ?rest" using True by (cases ?rest) auto
    have "cs = ?inner @ ?rest" by simp
    then have cs: "cs = ?inner @ CHR ''*'' # tl ?rest" using r by metis
    have ih: "concat (map part_source (markdown_parts [] (tl ?rest))) = tl ?rest"
      using "2.IH"(1) True by simp
    have "concat (map part_source (markdown_parts pending (c # cs))) =
          pending @ CHR ''*'' # ?inner @ CHR ''*'' # tl ?rest"
      using True ih by (simp add: part_source_def)
    then show ?thesis using cs True by simp
  next
    case False
    then show ?thesis using "2.IH"(2) by auto
  qed
qed

lemma markdown_parts_shape:
  "p \<in> set (markdown_parts pending s) \<Longrightarrow>
   snd p \<noteq> [] \<and> (fst p = ''text'' \<or> fst p = ''italic'' \<and> CHR ''*'' \<notin> set (snd p))"
proof (induction pending s rule: markdown_parts.induct)
  case (1 pending)
  then show ?case by (auto split: if_splits)
next
  case (2 pending c cs)
  let ?inner = "takeWhile (\<lambda>x. x \<noteq> CHR ''*'') cs"
  let ?rest = "dropWhile (\<lambda>x. x \<noteq> CHR ''*'') cs"
  show ?case
  proof (cases "c = CHR ''*'' \<and> ?inner \<noteq> [] \<and> ?rest \<noteq> []")
    case True
    have star: "CHR ''*'' \<notin> set ?inner" using set_takeWhileD by fastforce
    from "2.prems" True
    consider "p = (''text'', pending)" "pending \<noteq> []" | "p = (''italic'', ?inner)"
      | "p \<in> set (markdown_parts [] (tl ?rest))"
      by (auto split: if_splits)
    then show ?thesis
    proof cases
      case 1 then show ?thesis by simp
    next
      case 2 then show ?thesis using True star by simp
    next
      case 3 then show ?thesis using "2.IH"(1) True by simp
    qed
  next
    case False
    then have "p \<in> set (markdown_parts (pending @ [c]) cs)" using "2.prems" by auto
    then show ?thesis using "2.IH"(2) False by simp
  qed
qed

lemma markdown_parts_no_star:
  "CHR ''*'' \<notin> set s \<Longrightarrow>
   markdown_parts pending s = (if pending @ s \<noteq> [] then [(''text'', pending @ s)] else [])"
  by (induction s arbitrary: pending) auto

lemma markdown_parts_one_star:
  "CHR ''*'' \<notin> set pre \<Longrightarrow> CHR ''*'' \<notin> set post \<Longrightarrow>
   markdown_parts pending (pre @ CHR ''*'' # post) = [(''text'', pending @ pre @ CHR ''*'' # post)]"
proof (induction pre arbitrary: pending)
  case Nil
  then have "dropWhile (\<lambda>x. x \<noteq> CHR ''*'') post = []" by (auto simp: dropWhile_eq_Nil_conv)
  then show ?case using Nil by (simp add: markdown_parts_no_star)
next
  case (Cons x xs)
  then have "x \<noteq> CHR ''*''" by auto
  then show ?case using Cons by simp
qed

lemma markdown_parts_emphasis:
  assumes "e \<noteq> []" and "CHR ''*'' \<notin> set e"
  shows "markdown_parts [] (CHR ''*'' # e @ CHR ''*'' # s) = (''italic'', e) # markdown_parts [] s"
proof -
  have n: "\<forall>x\<in>set e. x \<noteq> CHR ''*''" using assms(2) by auto
  have t: "takeWhile (\<lambda>x. x \<noteq> CHR ''*'') (e @ CHR ''*'' # s) = e"
    using n by (simp add: takeWhile_tail)
  have d: "dropWhile (\<lambda>x. x \<noteq> CHR ''*'') (e @ CHR ''*'' # s) = CHR ''*'' # s"
    using n by (simp add: dropWhile_append3)
  show ?thesis using assms(1) t d by simp
qed

lemma markdown_parts_nonempty: "pending @ s \<noteq> [] \<Longrightarrow> markdown_parts pending s \<noteq> []"
proof
  assume n: "pending @ s \<noteq> []" and e: "markdown_parts pending s = []"
  have "concat (map part_source (markdown_parts pending s)) = pending @ s"
    by (rule markdown_parts_source)
  then show False using n e by simp
qed

text \<open>
  C7 (as amended). An empty text gives no sequence at all: \<open>markdown_to_tei\<close> returns Python's
  \<open>None\<close>, which the caller reads as no content; a text that is not empty gives a sequence
  that is not empty. For every text, the parts in order, with each italic part put back
  between its two \<open>*\<close>, are the text again: the contents are the text without the matched
  delimiters, each character once. No part is empty and an italic part holds no \<open>*\<close>. A
  single \<open>*\<close> with no closing \<open>*\<close> is not emphasis: it stays in one plain part with
  everything around it, at the start of a text and after a match. The examples of the
  specification for a text that is not empty are evaluated.
\<close>

theorem markdown_to_tei_segments:
  "markdown_to_tei [] = None \<and> segments (markdown_to_tei []) = [] \<and>
   (text \<noteq> [] \<longrightarrow> markdown_to_tei text = Some (segments (markdown_to_tei text)) \<and>
      segments (markdown_to_tei text) \<noteq> []) \<and>
   concat (map part_source (segments (markdown_to_tei text))) = text \<and>
   (\<forall>p \<in> set (segments (markdown_to_tei text)).
      snd p \<noteq> [] \<and> (fst p = ''text'' \<or> fst p = ''italic'' \<and> CHR ''*'' \<notin> set (snd p))) \<and>
   (CHR ''*'' \<notin> set pre \<and> CHR ''*'' \<notin> set post \<longrightarrow>
      markdown_to_tei (pre @ ''*'' @ post) = Some [(''text'', pre @ ''*'' @ post)]) \<and>
   (e \<noteq> [] \<and> CHR ''*'' \<notin> set e \<and> CHR ''*'' \<notin> set pre \<and> CHR ''*'' \<notin> set post \<longrightarrow>
      markdown_to_tei (''*'' @ e @ ''*'' @ pre @ ''*'' @ post) =
        Some [(''italic'', e), (''text'', pre @ ''*'' @ post)]) \<and>
   markdown_to_tei ''plain'' = Some [(''text'', ''plain'')] \<and>
   markdown_to_tei ''a *b* c'' = Some [(''text'', ''a ''), (''italic'', ''b''), (''text'', '' c'')]"
proof (intro conjI impI ballI)
  show "markdown_to_tei [] = None" by (simp add: markdown_to_tei_def)
  show "segments (markdown_to_tei []) = []" by (simp add: markdown_to_tei_def segments_def)
  show "concat (map part_source (segments (markdown_to_tei text))) = text"
    by (simp add: markdown_to_tei_def segments_def markdown_parts_source)
  show "markdown_to_tei ''plain'' = Some [(''text'', ''plain'')]" by code_simp
  show "markdown_to_tei ''a *b* c'' =
      Some [(''text'', ''a ''), (''italic'', ''b''), (''text'', '' c'')]" by code_simp
next
  assume "text \<noteq> []"
  then show "markdown_to_tei text = Some (segments (markdown_to_tei text))"
    and "segments (markdown_to_tei text) \<noteq> []"
    using markdown_parts_nonempty [of "[]" "text"]
    by (simp_all add: markdown_to_tei_def segments_def)
next
  fix p assume "p \<in> set (segments (markdown_to_tei text))"
  then have "p \<in> set (markdown_parts [] text)"
    by (simp add: markdown_to_tei_def segments_def split: if_splits)
  then have s: "snd p \<noteq> [] \<and> (fst p = ''text'' \<or> fst p = ''italic'' \<and> CHR ''*'' \<notin> set (snd p))"
    by (rule markdown_parts_shape)
  from s show "snd p \<noteq> []" by simp
  from s show "fst p = ''text'' \<or> fst p = ''italic'' \<and> CHR ''*'' \<notin> set (snd p)" by simp
next
  assume "CHR ''*'' \<notin> set pre \<and> CHR ''*'' \<notin> set post"
  then show "markdown_to_tei (pre @ ''*'' @ post) = Some [(''text'', pre @ ''*'' @ post)]"
    using markdown_parts_one_star [of pre post "[]"] by (simp add: markdown_to_tei_def)
next
  assume a: "e \<noteq> [] \<and> CHR ''*'' \<notin> set e \<and> CHR ''*'' \<notin> set pre \<and> CHR ''*'' \<notin> set post"
  then have "markdown_parts [] (CHR ''*'' # e @ CHR ''*'' # pre @ CHR ''*'' # post) =
      (''italic'', e) # markdown_parts [] (pre @ CHR ''*'' # post)"
    using markdown_parts_emphasis [of e "pre @ CHR ''*'' # post"] by simp
  then show "markdown_to_tei (''*'' @ e @ ''*'' @ pre @ ''*'' @ post) =
      Some [(''italic'', e), (''text'', pre @ ''*'' @ post)]"
    using a markdown_parts_one_star [of pre post "[]"] by (simp add: markdown_to_tei_def)
qed

theorem markdown_to_tei_segments_witness:
  "''*c*a *b'' \<noteq> [] \<and> CHR ''*'' \<notin> set ''a '' \<and> CHR ''*'' \<notin> set ''b'' \<and> ''c'' \<noteq> [] \<and> CHR ''*'' \<notin> set ''c'' \<and>
   markdown_to_tei ''a *b'' = Some [(''text'', ''a *b'')] \<and>
   markdown_to_tei ''*c*a *b'' = Some [(''italic'', ''c''), (''text'', ''a *b'')] \<and>
   concat (map part_source (segments (markdown_to_tei ''*c*a *b''))) = ''*c*a *b''"
  using markdown_to_tei_segments [of "''*c*a *b''" "''a ''" "''b''" "''c''"]
  by (simp add: segments_def part_source_def)

text \<open>
  C7 (as stated) fails for the empty text: the result is \<open>None\<close> and not the empty sequence.
\<close>

theorem markdown_to_tei_empty_counterexample:
  "markdown_to_tei [] = None \<and> markdown_to_tei [] \<noteq> Some []"
  by (simp add: markdown_to_tei_def)

section \<open>Properties of the table loader\<close>

lemma strip_strip: "strip (strip s) = strip s"
proof (cases "strip s = []")
  case True
  have "strip [] = []" by (simp add: strip_def lstrip_def rstrip_def)
  then show ?thesis unfolding True .
next
  case False
  then have "\<not> is_space (hd (strip s))" by (rule strip_hd)
  then have "lstrip (strip s) = strip s" using False by (cases "strip s") (auto simp: lstrip_def)
  moreover have "rstrip (strip s) = strip s" by (simp add: strip_def rstrip_def)
  ultimately show ?thesis by (simp add: strip_def [of "strip s"])
qed

lemma store_cell_length: "length (store_cell row f ds i) = length ds"
  by (simp add: store_cell_def Let_def)

lemma store_cols_length: "length (foldl (store_cell row f) ds is) = length ds"
  by (induction "is" arbitrary: ds) (simp_all add: store_cell_length)

lemma store_row_length: "length (store_row n ds row) = length ds"
  by (simp add: store_row_def store_cols_length)

lemma store_rows_length: "length (foldl (store_row n) ds rs) = length ds"
  by (induction rs arbitrary: ds) (simp_all add: store_row_length)

lemma store_cell_ok:
  assumes ok: "stored_ok rows ds" and row: "row \<in> set (drop 4 rows)" and len: "2 \<le> length row"
  shows "stored_ok rows (store_cell row (strip (row ! 0)) ds i)"
proof (cases "i + 2 < length row \<and> strip (row ! (i + 2)) \<noteq> [] \<and> i < length ds")
  case False
  then have "store_cell row (strip (row ! 0)) ds i = ds"
    by (auto simp: store_cell_def Let_def list_update_beyond)
  then show ?thesis using ok by simp
next
  case True
  let ?f = "strip (row ! 0)" and ?v = "strip (row ! (i + 2))"
  have eq: "store_cell row ?f ds i = ds[i := (ds ! i)(?f \<mapsto> ?v)]"
    using True by (simp add: store_cell_def Let_def)
  have src: "cell_source rows i ?f ?v"
    unfolding cell_source_def using row len True by blast
  show ?thesis
    unfolding stored_ok_def eq
  proof (intro allI impI)
    fix j f v
    assume j: "j < length (ds[i := (ds ! i)(?f \<mapsto> ?v)])"
      and b: "(ds[i := (ds ! i)(?f \<mapsto> ?v)] ! j) f = Some v"
    show "v \<noteq> [] \<and> strip v = v \<and> cell_source rows j f v"
    proof (cases "j = i \<and> f = ?f")
      case True
      then have "v = ?v" using b j by simp
      then show ?thesis using True \<open>i + 2 < length row \<and> ?v \<noteq> [] \<and> i < length ds\<close> src
        by (simp add: strip_strip)
    next
      case False
      then have "(ds ! j) f = Some v" using b j by (cases "j = i") auto
      then show ?thesis using ok j by (simp add: stored_ok_def)
    qed
  qed
qed

lemma store_cols_ok:
  assumes "stored_ok rows ds" and "row \<in> set (drop 4 rows)" and "2 \<le> length row"
  shows "stored_ok rows (foldl (store_cell row (strip (row ! 0))) ds is)"
  using assms(1)
proof (induction "is" arbitrary: ds)
  case Nil
  then show ?case by simp
next
  case (Cons i "is")
  then show ?case using store_cell_ok [OF _ assms(2) assms(3)] by simp
qed

lemma store_row_ok:
  assumes "stored_ok rows ds" and "row \<in> set (drop 4 rows)"
  shows "stored_ok rows (store_row n ds row)"
proof (cases "length row < 2 \<or> strip (row ! 0) = []")
  case True
  then show ?thesis using assms(1) by (simp add: store_row_def)
next
  case False
  then have "2 \<le> length row" by simp
  from store_cols_ok [OF assms(1) assms(2) this] show ?thesis using False
    by (simp add: store_row_def)
qed

lemma store_rows_ok:
  assumes "stored_ok rows ds" and "set rs \<subseteq> set (drop 4 rows)"
  shows "stored_ok rows (foldl (store_row n) ds rs)"
  using assms
proof (induction rs arbitrary: ds)
  case Nil
  then show ?case by simp
next
  case (Cons r rs)
  then show ?case using store_row_ok [of rows ds r n] by simp
qed

text \<open>
  C10. On every table with the two header rows the loader returns, whatever the length of
  the rows, one record for each non-empty header. Every value bound in a record is
  non-empty and stripped, and it is the stripped text of a cell of that dataset's column
  in a row of that field: a cell that is missing, empty or only white space binds nothing,
  and no field is bound to the empty string.
\<close>

theorem parse_csv_column_records:
  assumes "2 \<le> length rows"
  shows "\<exists>datasets. parse_csv_column rows = Inr datasets \<and>
           length datasets = length (filter (\<lambda>h. strip h \<noteq> []) (drop 2 (rows ! 1))) \<and>
           (\<forall>i < length datasets. \<forall>f v. (datasets ! i) f = Some v \<longrightarrow>
              v \<noteq> [] \<and> strip v = v \<and> cell_source rows i f v)"
proof -
  let ?n = "length (filter (\<lambda>h. strip h \<noteq> []) (drop 2 (rows ! 1)))"
  let ?ds = "foldl (store_row ?n) (replicate ?n Map.empty) (drop 4 rows)"
  have p: "parse_csv_column rows = Inr ?ds"
    using assms by (simp add: parse_csv_column_def Let_def)
  have l: "length ?ds = ?n" by (simp add: store_rows_length)
  have "stored_ok rows (replicate ?n Map.empty)" by (simp add: stored_ok_def)
  then have "stored_ok rows ?ds" by (rule store_rows_ok) simp
  then show ?thesis using p l unfolding stored_ok_def by blast
qed

theorem parse_csv_column_records_witness:
  "2 \<le> length [[''Legende''], [''FELDNAME'', ''TITEL'', ''Datensatz 1'', ''Datensatz 2''], [], [],
                  [''Land'', [], '' Serbia '', ''Albania''], [''Region'', [], ''  ''], [''Jahr'']] \<and>
   (\<exists>datasets.
      parse_csv_column [[''Legende''], [''FELDNAME'', ''TITEL'', ''Datensatz 1'', ''Datensatz 2''], [], [],
                        [''Land'', [], '' Serbia '', ''Albania''], [''Region'', [], ''  ''], [''Jahr'']] =
        Inr datasets \<and> length datasets = 2)"
proof -
  let ?rows = "[[''Legende''], [''FELDNAME'', ''TITEL'', ''Datensatz 1'', ''Datensatz 2''], [], [],
                [''Land'', [], '' Serbia '', ''Albania''], [''Region'', [], ''  ''], [''Jahr'']]"
  have h: "2 \<le> length ?rows" by simp
  have n: "length (filter (\<lambda>h. strip h \<noteq> []) (drop 2 (?rows ! 1))) = 2" by code_simp
  from parse_csv_column_records [OF h] n show ?thesis using h by metis
qed

section \<open>Properties of the elements\<close>

lemma elem_children_append [simp]:
  "elem_children (elem_append e c) = elem_children e @ [c]"
  by (simp add: elem_append_def)

lemma elem_children_extend [simp]:
  "elem_children (elem_extend e cs) = elem_children e @ cs"
  unfolding elem_extend_def by (induction cs arbitrary: e) simp_all

lemma elem_children_create [simp]: "elem_children (create_tei_element tg txt attrib) = []"
  by (simp add: create_tei_element_def)

lemma elem_children_add_title [simp]:
  "elem_children (add_title e txt level lang ref) =
     elem_children e @ [create_tei_element ''title'' txt (title_attrib level lang ref)]"
  by (simp add: add_title_def)

section \<open>Properties of the editors\<close>

lemma match_before_found:
  "pre \<noteq> [] \<Longrightarrow> c \<notin> set pre \<Longrightarrow> match_before c (pre @ c # rest) = Some pre"
proof -
  assume p: "pre \<noteq> []" and n: "c \<notin> set pre"
  have "\<forall>x\<in>set pre. x \<noteq> c" using n by auto
  then have t: "takeWhile (\<lambda>x. x \<noteq> c) (pre @ c # rest) = pre" by (simp add: takeWhile_tail)
  show ?thesis unfolding match_before_def Let_def t using p by simp
qed

lemma match_before_none:
  "c \<notin> set s \<or> hd s = c \<Longrightarrow> match_before c s = None"
proof (cases "c \<in> set s")
  case False
  then have "\<forall>x\<in>set s. x \<noteq> c" by auto
  then have t: "takeWhile (\<lambda>x. x \<noteq> c) s = s" by simp
  show ?thesis unfolding match_before_def Let_def t by simp
next
  case True
  assume "c \<notin> set s \<or> hd s = c"
  then have "hd s = c" using True by simp
  moreover have "s \<noteq> []" using True by auto
  ultimately have t: "takeWhile (\<lambda>x. x \<noteq> c) s = []" by (cases s) auto
  show ?thesis unfolding match_before_def Let_def t by simp
qed

lemma editors_map_filter:
  "concat (map (\<lambda>a. let ts = f a in if 2 \<le> length ts then [g ts] else []) xs) =
   map g (filter (\<lambda>ts. 2 \<le> length ts) (map f xs))"
  by (induction xs) (simp_all add: Let_def)

lemma editor_elems_length: "length (editor_elems as) \<le> 3"
proof (cases "as = []")
  case True
  then show ?thesis by (simp add: editor_elems_def)
next
  case False
  have "length (filter (\<lambda>ts. 2 \<le> length ts) (map (\<lambda>a. split_ws (strip a)) (take 3 as)))
          \<le> length (map (\<lambda>a. split_ws (strip a)) (take 3 as))"
    by (rule length_filter_le)
  then show ?thesis using False by (simp add: editor_elems_def editors_map_filter)
qed

text \<open>
  C8. The editors of \<open>titleStmt\<close> stand between the title and the two fixed statements, and
  are built from the authors parsed from \<open>Zitierempfehlung\<close>. The authors are the names of
  the text before the first full stop; when there is no full stop (or the text starts with
  one), of the text before the first asterisk; otherwise there is none. There are at most
  three editors. With no parsed author the only editor is the placeholder \<open>FIRST LAST\<close>.
  Otherwise each of the first three authors with two tokens or more gives one editor, whose
  forename is all tokens but the last and whose surname is the last token; an author of one
  token gives none.
\<close>

theorem citation_editors:
  "tl (butlast (butlast (elem_children (title_stmt_elem dataset template_data)))) =
     editor_elems (parse_citation_authors (get_default (dataset ''Zitierempfehlung'') [])) \<and>
   (pre \<noteq> [] \<and> CHR ''.'' \<notin> set pre \<longrightarrow>
      parse_citation_authors (pre @ ''.'' @ rest) = author_list pre) \<and>
   (pre \<noteq> [] \<and> CHR ''*'' \<notin> set pre \<and>
    (CHR ''.'' \<notin> set (pre @ ''*'' @ rest) \<or> hd pre = CHR ''.'') \<longrightarrow>
      parse_citation_authors (pre @ ''*'' @ rest) = author_list pre) \<and>
   ((CHR ''.'' \<notin> set c \<or> hd c = CHR ''.'') \<and> (CHR ''*'' \<notin> set c \<or> hd c = CHR ''*'') \<longrightarrow>
      parse_citation_authors c = []) \<and>
   length (editor_elems authors) \<le> 3 \<and>
   editor_elems [] = [editor_elem ''FIRST'' ''LAST''] \<and>
   (authors \<noteq> [] \<longrightarrow>
      editor_elems authors =
        map (\<lambda>tokens. editor_elem (join '' '' (butlast tokens)) (last tokens))
            (filter (\<lambda>tokens. 2 \<le> length tokens) (map name_tokens (take 3 authors)))) \<and>
   editor_elem forename surname =
     Element (''{'' @ TEI_NS @ ''}editor'') [(''ana'', ''marcrelator:edt'')] None None
       [Element (''{'' @ TEI_NS @ ''}persName'') [] None None
          [create_tei_element ''forename'' (Some forename) [],
           create_tei_element ''surname'' (Some surname) []]]"
proof (intro conjI impI)
  show "tl (butlast (butlast (elem_children (title_stmt_elem dataset template_data)))) =
     editor_elems (parse_citation_authors (get_default (dataset ''Zitierempfehlung'') []))"
    by (simp add: title_stmt_elem_def Let_def butlast_append)
next
  assume a: "pre \<noteq> [] \<and> CHR ''.'' \<notin> set pre"
  then have "match_before (CHR ''.'') (pre @ CHR ''.'' # rest) = Some pre"
    by (simp add: match_before_found)
  then show "parse_citation_authors (pre @ ''.'' @ rest) = author_list pre"
    by (simp add: parse_citation_authors_def author_list_def Let_def)
next
  assume a: "pre \<noteq> [] \<and> CHR ''*'' \<notin> set pre \<and>
    (CHR ''.'' \<notin> set (pre @ ''*'' @ rest) \<or> hd pre = CHR ''.'')"
  then have "CHR ''.'' \<notin> set (pre @ CHR ''*'' # rest) \<or> hd (pre @ CHR ''*'' # rest) = CHR ''.''"
    by auto
  then have n: "match_before (CHR ''.'') (pre @ CHR ''*'' # rest) = None"
    by (rule match_before_none)
  have "match_before (CHR ''*'') (pre @ CHR ''*'' # rest) = Some pre"
    using a by (simp add: match_before_found)
  then show "parse_citation_authors (pre @ ''*'' @ rest) = author_list pre"
    using n by (simp add: parse_citation_authors_def author_list_def Let_def)
next
  assume a: "(CHR ''.'' \<notin> set c \<or> hd c = CHR ''.'') \<and> (CHR ''*'' \<notin> set c \<or> hd c = CHR ''*'')"
  then have "match_before (CHR ''.'') c = None" and "match_before (CHR ''*'') c = None"
    by (simp_all add: match_before_none)
  then show "parse_citation_authors c = []"
    by (simp add: parse_citation_authors_def Let_def)
next
  show "length (editor_elems authors) \<le> 3" by (rule editor_elems_length)
  show "editor_elems [] = [editor_elem ''FIRST'' ''LAST'']" by (simp add: editor_elems_def)
  show "editor_elem forename surname =
     Element (''{'' @ TEI_NS @ ''}editor'') [(''ana'', ''marcrelator:edt'')] None None
       [Element (''{'' @ TEI_NS @ ''}persName'') [] None None
          [create_tei_element ''forename'' (Some forename) [],
           create_tei_element ''surname'' (Some surname) []]]"
    by (simp add: editor_elem_def add_person_name_def elem_append_def elem_extend_def
        create_tei_element_def truthy_def)
next
  assume "authors \<noteq> []"
  then show "editor_elems authors =
        map (\<lambda>tokens. editor_elem (join '' '' (butlast tokens)) (last tokens))
            (filter (\<lambda>tokens. 2 \<le> length tokens) (map name_tokens (take 3 authors)))"
    using editors_map_filter [of "\<lambda>a. split_ws (strip a)"
        "\<lambda>tokens. editor_elem (join '' '' (butlast tokens)) (last tokens)" "take 3 authors"]
    by (simp add: editor_elems_def name_tokens_def [abs_def])
qed

theorem citation_editors_witness:
  "''Anna Maria Huber, Smith and Jo Li'' \<noteq> [] \<and> CHR ''.'' \<notin> set ''Anna Maria Huber, Smith and Jo Li'' \<and>
   parse_citation_authors ''Anna Maria Huber, Smith and Jo Li. *Title*'' =
     [''Anna Maria Huber'', ''Smith'', ''Jo Li''] \<and>
   CHR ''*'' \<notin> set ''Jo Li '' \<and> CHR ''.'' \<notin> set ''Jo Li *Title*'' \<and>
   parse_citation_authors ''Jo Li *Title*'' = [''Jo Li''] \<and>
   parse_citation_authors ''*Title*'' = [] \<and>
   editor_elems [''Anna Maria Huber'', ''Smith'', ''Jo Li''] =
     [editor_elem ''Anna Maria'' ''Huber'', editor_elem ''Jo'' ''Li'']"
proof -
  have l1: "author_list ''Anna Maria Huber, Smith and Jo Li'' = [''Anna Maria Huber'', ''Smith'', ''Jo Li'']"
    by code_simp
  have l2: "author_list ''Jo Li '' = [''Jo Li'']" by code_simp
  have t: "map (\<lambda>tokens. editor_elem (join '' '' (butlast tokens)) (last tokens))
            (filter (\<lambda>tokens. 2 \<le> length tokens)
               (map name_tokens (take 3 [''Anna Maria Huber'', ''Smith'', ''Jo Li'']))) =
           [editor_elem ''Anna Maria'' ''Huber'', editor_elem ''Jo'' ''Li'']"
    by code_simp
  have a: "parse_citation_authors ''Anna Maria Huber, Smith and Jo Li. *Title*'' =
      [''Anna Maria Huber'', ''Smith'', ''Jo Li'']"
    using citation_editors [of _ _ "''Anna Maria Huber, Smith and Jo Li''" "'' *Title*''"] l1
    by simp
  have b: "parse_citation_authors ''Jo Li *Title*'' = [''Jo Li'']"
    using citation_editors [of _ _ "''Jo Li ''" "''Title*''"] l2 by simp
  have c: "parse_citation_authors ''*Title*'' = []"
    using citation_editors [of _ _ _ _ "''*Title*''"] by simp
  have d: "editor_elems [''Anna Maria Huber'', ''Smith'', ''Jo Li''] =
     [editor_elem ''Anna Maria'' ''Huber'', editor_elem ''Jo'' ''Li'']"
    using citation_editors [of _ _ _ _ _ "[''Anna Maria Huber'', ''Smith'', ''Jo Li'']"] t
    by simp
  show ?thesis using a b c d by simp
qed

section \<open>Properties of the Bild entries\<close>

lemma bild_mime_type_cases:
  "bild_mime_type filename =
     (if lower (last (split ''.'' filename)) = ''png'' then ''image/png''
      else if lower (last (split ''.'' filename)) = ''pdf'' then ''application/pdf''
      else ''image/jpeg'')"
  by (simp add: bild_mime_type_def Let_def get_default_def)

text \<open>
  C6 (as amended). For a Bild entry with a parsed file name the loop appends one \<open>rs\<close>
  element, whose last child carries the URL, the MIME type and the identifier. The MIME
  type is found from the lower-cased extension: \<open>image/png\<close> for \<open>png\<close>, \<open>application/pdf\<close>
  for \<open>pdf\<close>, and \<open>image/jpeg\<close> for \<open>jpg\<close>, \<open>jpeg\<close> and every other or missing extension.
  The child is a \<open>media\<close> element for \<open>pdf\<close> only, and a \<open>graphic\<close> element otherwise: an
  unknown extension counts as an image.
\<close>

theorem bild_entry_routing:
  "last (elem_children (bild_rs dataset_id filename title)) =
     file_elem (if lower (last (split ''.'' filename)) = ''pdf'' then ''media'' else ''graphic'')
       (add_folder_prefix filename dataset_id)
       (if lower (last (split ''.'' filename)) = ''png'' then ''image/png''
        else if lower (last (split ''.'' filename)) = ''pdf'' then ''application/pdf''
        else ''image/jpeg'')
       (sanitize_xml_id filename) \<and>
   (truthy (dataset (''Bild '' @ str_nat i)) \<and>
    parse_file_entry (the (dataset (''Bild '' @ str_nat i))) (''Bild '' @ str_nat i) dataset_id ws =
      ((Some filename, title), ws') \<and> filename \<noteq> [] \<longrightarrow>
    file_step bild_rs ''Bild'' dataset dataset_id (additional_bibl, has_additional, ws) i =
      (elem_append additional_bibl (bild_rs dataset_id filename title), True, ws'))"
proof (intro conjI impI)
  show "last (elem_children (bild_rs dataset_id filename title)) =
     file_elem (if lower (last (split ''.'' filename)) = ''pdf'' then ''media'' else ''graphic'')
       (add_folder_prefix filename dataset_id)
       (if lower (last (split ''.'' filename)) = ''png'' then ''image/png''
        else if lower (last (split ''.'' filename)) = ''pdf'' then ''application/pdf''
        else ''image/jpeg'')
       (sanitize_xml_id filename)"
    unfolding bild_rs_def Let_def bild_mime_type_cases
    by (simp add: startswith_def)
next
  assume "truthy (dataset (''Bild '' @ str_nat i)) \<and>
    parse_file_entry (the (dataset (''Bild '' @ str_nat i))) (''Bild '' @ str_nat i) dataset_id ws =
      ((Some filename, title), ws') \<and> filename \<noteq> []"
  then show "file_step bild_rs ''Bild'' dataset dataset_id (additional_bibl, has_additional, ws) i =
      (elem_append additional_bibl (bild_rs dataset_id filename title), True, ws')"
    by (simp add: file_step_def Let_def truthy_def)
qed

theorem bild_entry_routing_witness:
  "truthy ([''Bild 1'' \<mapsto> ''plan.PDF - Plan''] (''Bild '' @ str_nat 1)) \<and>
   parse_file_entry (the ([''Bild 1'' \<mapsto> ''plan.PDF - Plan''] (''Bild '' @ str_nat 1)))
     (''Bild '' @ str_nat 1) ''147'' [] = ((Some ''plan.PDF'', Some ''Plan''), []) \<and>
   ''plan.PDF'' \<noteq> [] \<and>
   file_step bild_rs ''Bild'' [''Bild 1'' \<mapsto> ''plan.PDF - Plan''] ''147''
     (create_tei_element ''bibl'' None [(''type'', ''additional'')], False, []) 1 =
     (elem_append (create_tei_element ''bibl'' None [(''type'', ''additional'')])
        (bild_rs ''147'' ''plan.PDF'' (Some ''Plan'')), True, []) \<and>
   last (elem_children (bild_rs ''147'' ''plan.PDF'' (Some ''Plan''))) =
     file_elem ''media'' ''../datafile_147_Serbia_1863/plan.PDF'' ''application/pdf'' ''plan_PDF''"
proof -
  have k: "''Bild '' @ str_nat 1 = ''Bild 1''" by code_simp
  have h1: "truthy ([''Bild 1'' \<mapsto> ''plan.PDF - Plan''] (''Bild '' @ str_nat 1))"
    unfolding k by (simp add: truthy_def)
  have h2: "parse_file_entry (the ([''Bild 1'' \<mapsto> ''plan.PDF - Plan''] (''Bild '' @ str_nat 1)))
     (''Bild '' @ str_nat 1) ''147'' [] = ((Some ''plan.PDF'', Some ''Plan''), [])"
    unfolding k by code_simp
  have e: "lower (last (split ''.'' ''plan.PDF'')) = ''pdf''" by code_simp
  have u: "add_folder_prefix ''plan.PDF'' ''147'' = ''../datafile_147_Serbia_1863/plan.PDF''"
    by code_simp
  have s: "sanitize_xml_id ''plan.PDF'' = ''plan_PDF''" by code_simp
  from bild_entry_routing [of "''147''" "''plan.PDF''" "Some ''Plan''"
      "[''Bild 1'' \<mapsto> ''plan.PDF - Plan'']" 1 "[]" "[]"
      "create_tei_element ''bibl'' None [(''type'', ''additional'')]" False] h1 h2 e u s
  show ?thesis by simp
qed

text \<open>
  C6 (as stated) fails: \<open>txt\<close> is not an image extension, yet the entry
  \<open>notes.txt - Notes\<close> is parsed to the file name \<open>notes.txt\<close> and gets a \<open>graphic\<close>
  element of type \<open>image/jpeg\<close>, not a \<open>media\<close> element.
\<close>

theorem bild_unknown_extension_counterexample:
  "parse_file_entry ''notes.txt - Notes'' ''Bild 1'' ''147'' [] =
     ((Some ''notes.txt'', Some ''Notes''), []) \<and>
   elem_tag (last (elem_children (bild_rs ''147'' ''notes.txt'' (Some ''Notes'')))) =
     ''{http://www.tei-c.org/ns/1.0}graphic'' \<and>
   elem_tag (last (elem_children (bild_rs ''147'' ''notes.txt'' (Some ''Notes'')))) \<noteq>
     ''{http://www.tei-c.org/ns/1.0}media'' \<and>
   map_of (elem_attrib (last (elem_children (bild_rs ''147'' ''notes.txt'' (Some ''Notes'')))))
     ''mimeType'' = Some ''image/jpeg''"
  by code_simp

section \<open>The document does not depend on the warning list\<close>

lemma parse_file_entry_warnings:
  "parse_file_entry e f d ws =
     (fst (parse_file_entry e f d []), ws @ snd (parse_file_entry e f d []))"
  by (simp add: parse_file_entry_def Let_def)

lemma csv_entry_warnings:
  "csv_entry key ty dt dataset d (e, ws) =
     (fst (csv_entry key ty dt dataset d (e, [])), ws @ snd (csv_entry key ty dt dataset d (e, [])))"
  unfolding csv_entry_def Let_def
  using parse_file_entry_warnings [of "the (dataset key)" key d ws]
  by (auto simp: split: if_splits)

lemma data_bibl_elem_warnings:
  "data_bibl_elem dataset ws =
     (fst (data_bibl_elem dataset []), ws @ snd (data_bibl_elem dataset []))"
proof -
  let ?d = "get_default (dataset ''Datensatz ID'') ''000''"
  let ?e = "create_tei_element ''bibl'' None [(''type'', ''data'')]"
  let ?c = "csv_entry ''CSV Codes'' ''codes'' ''Data with Codes'' dataset ?d (?e, [])"
  let ?l = "csv_entry ''CSV Labels'' ''labels'' ''Data with Labels'' dataset ?d"
  have 1: "csv_entry ''CSV Codes'' ''codes'' ''Data with Codes'' dataset ?d (?e, ws) =
      (fst ?c, ws @ snd ?c)" by (rule csv_entry_warnings)
  have 2: "?l (fst ?c, ws @ snd ?c) = (fst (?l (fst ?c, [])), (ws @ snd ?c) @ snd (?l (fst ?c, [])))"
    by (rule csv_entry_warnings)
  have 3: "?l ?c = (fst (?l (fst ?c, [])), snd ?c @ snd (?l (fst ?c, [])))"
    using csv_entry_warnings [of "''CSV Labels''" "''labels''" "''Data with Labels''" dataset ?d
        "fst ?c" "snd ?c"] by simp
  show ?thesis unfolding data_bibl_elem_def Let_def 1 2 3 by simp
qed

lemma file_step_warnings: "appends_warnings (file_step make_rs name dataset d)"
  unfolding appends_warnings_def
proof (intro allI)
  fix e b ws i
  show "file_step make_rs name dataset d (e, b, ws) i =
        (fst (file_step make_rs name dataset d (e, b, []) i),
         fst (snd (file_step make_rs name dataset d (e, b, []) i)),
         ws @ snd (snd (file_step make_rs name dataset d (e, b, []) i)))"
    unfolding file_step_def Let_def
    using parse_file_entry_warnings
      [of "the (dataset (name @ '' '' @ str_nat i))" "name @ '' '' @ str_nat i" d ws]
    by (auto simp: split: if_splits)
qed

lemma literatur_step_warnings: "appends_warnings (literatur_step dataset)"
  by (simp add: appends_warnings_def literatur_step_def Let_def)

lemma foldl_appends_warnings:
  assumes "appends_warnings step"
  shows "foldl step (e, b, ws) is =
     (fst (foldl step (e, b, []) is), fst (snd (foldl step (e, b, []) is)),
      ws @ snd (snd (foldl step (e, b, []) is)))"
proof (induction "is" arbitrary: e b ws)
  case Nil
  then show ?case by simp
next
  case (Cons i "is")
  obtain e' b' w where s: "step (e, b, []) i = (e', b', w)" by (cases "step (e, b, []) i") auto
  have 1: "step (e, b, ws) i = (e', b', ws @ w)"
    using assms s unfolding appends_warnings_def by (metis fst_conv snd_conv)
  have 2: "foldl step (e', b', ws @ w) is =
      (fst (foldl step (e', b', []) is), fst (snd (foldl step (e', b', []) is)),
       (ws @ w) @ snd (snd (foldl step (e', b', []) is)))" by (rule Cons.IH)
  have 3: "foldl step (e', b', w) is =
      (fst (foldl step (e', b', []) is), fst (snd (foldl step (e', b', []) is)),
       w @ snd (snd (foldl step (e', b', []) is)))" by (rule Cons.IH)
  show ?case by (simp add: 1 s 2 3)
qed

lemma three_stages_warnings:
  assumes s1: "appends_warnings s1" and s2: "appends_warnings s2" and s3: "appends_warnings s3"
  shows "foldl s3 (foldl s2 (foldl s1 (e, b, ws) xs) ys) zs =
     (fst (foldl s3 (foldl s2 (foldl s1 (e, b, []) xs) ys) zs),
      fst (snd (foldl s3 (foldl s2 (foldl s1 (e, b, []) xs) ys) zs)),
      ws @ snd (snd (foldl s3 (foldl s2 (foldl s1 (e, b, []) xs) ys) zs)))"
proof -
  obtain e1 b1 w1 where x: "foldl s1 (e, b, []) xs = (e1, b1, w1)"
    using prod_cases3 by blast
  obtain e2 b2 w2 where y: "foldl s2 (e1, b1, []) ys = (e2, b2, w2)"
    using prod_cases3 by blast
  obtain e3 b3 w3 where z: "foldl s3 (e2, b2, []) zs = (e3, b3, w3)"
    using prod_cases3 by blast
  have x': "foldl s1 (e, b, u) xs = (e1, b1, u @ w1)" for u
    using foldl_appends_warnings [OF s1, of e b u xs] x by simp
  have y': "foldl s2 (e1, b1, u) ys = (e2, b2, u @ w2)" for u
    using foldl_appends_warnings [OF s2, of e1 b1 u ys] y by simp
  have z': "foldl s3 (e2, b2, u) zs = (e3, b3, u @ w3)" for u
    using foldl_appends_warnings [OF s3, of e2 b2 u zs] z by simp
  show ?thesis unfolding x' y' z' by simp
qed

lemma additional_bibl_elem_warnings:
  "additional_bibl_elem dataset ws =
     (fst (additional_bibl_elem dataset []), fst (snd (additional_bibl_elem dataset [])),
      ws @ snd (snd (additional_bibl_elem dataset [])))"
  unfolding additional_bibl_elem_def Let_def
  by (rule three_stages_warnings [OF file_step_warnings file_step_warnings literatur_step_warnings])

lemma source_desc_elem_warnings:
  "source_desc_elem dataset ws =
     (fst (source_desc_elem dataset []), ws @ snd (source_desc_elem dataset []))"
proof -
  obtain e1 w1 where d: "data_bibl_elem dataset [] = (e1, w1)"
    by (cases "data_bibl_elem dataset []") auto
  obtain e2 b2 w2 where a: "additional_bibl_elem dataset [] = (e2, b2, w2)"
    by (cases "additional_bibl_elem dataset []") auto
  have d': "\<And>ws. data_bibl_elem dataset ws = (e1, ws @ w1)"
    using data_bibl_elem_warnings [of dataset] d by simp
  have a': "\<And>ws. additional_bibl_elem dataset ws = (e2, b2, ws @ w2)"
    using additional_bibl_elem_warnings [of dataset] a by simp
  show ?thesis unfolding source_desc_elem_def Let_def d' a' by simp
qed

lemma create_tei_document_warnings:
  "create_tei_document dataset template_data ws =
     (fst (create_tei_document dataset template_data []),
      ws @ snd (create_tei_document dataset template_data []))"
  unfolding create_tei_document_def Let_def
  using source_desc_elem_warnings [of dataset ws] by simp

text \<open>
  C4. The tree that \<open>create_tei_document\<close> builds is a function of the record and the
  template data alone. The only other state the converter has is the warning list, and the
  tree does not depend on it: whatever the list holds, also the warnings of a first run on
  the same input, the tree is the same, and the run appends the same warnings. No node is
  read from a clock: the publication date is the literal \<open>2025\<close> for every record.
\<close>

theorem create_tei_document_deterministic:
  "fst (create_tei_document dataset template_data ws) =
     fst (create_tei_document dataset template_data ws') \<and>
   fst (create_tei_document dataset template_data
          (snd (create_tei_document dataset template_data ws))) =
     fst (create_tei_document dataset template_data ws) \<and>
   snd (create_tei_document dataset template_data ws) =
     ws @ snd (create_tei_document dataset template_data []) \<and>
   elem_children (pub_stmt_elem dataset template_data) ! 5 =
     create_tei_element ''date'' (Some ''2025'') [(''when'', ''2025''), (''ana'', ''dcterms:issued'')]"
proof (intro conjI)
  show "fst (create_tei_document dataset template_data ws) =
     fst (create_tei_document dataset template_data ws')"
    using create_tei_document_warnings [of dataset template_data ws]
      create_tei_document_warnings [of dataset template_data ws'] by simp
  show "fst (create_tei_document dataset template_data
          (snd (create_tei_document dataset template_data ws))) =
     fst (create_tei_document dataset template_data ws)"
    using create_tei_document_warnings [of dataset template_data ws]
      create_tei_document_warnings [of dataset template_data
        "snd (create_tei_document dataset template_data ws)"] by simp
  show "snd (create_tei_document dataset template_data ws) =
     ws @ snd (create_tei_document dataset template_data [])"
    using create_tei_document_warnings [of dataset template_data ws] by simp
  show "elem_children (pub_stmt_elem dataset template_data) ! 5 =
     create_tei_element ''date'' (Some ''2025'') [(''when'', ''2025''), (''ana'', ''dcterms:issued'')]"
    by (simp add: pub_stmt_elem_def Let_def nth_append)
qed

section \<open>Properties of the main loop of the converter\<close>

lemma convert_loop_append:
  "snd (convert_loop env t out i pre st) = None \<Longrightarrow>
   convert_loop env t out i (pre @ rest) st =
     convert_loop env t out (i + length pre) rest (fst (convert_loop env t out i pre st))"
proof (induction pre arbitrary: i st)
  case Nil
  then show ?case by simp
next
  case (Cons d pre)
  obtain r ws where p: "process_dataset env t out i d (snd st) = (r, ws)"
    by (cases "process_dataset env t out i d (snd st)") auto
  show ?case
  proof (cases r)
    case (Inl e)
    then show ?thesis using p Cons.prems by simp
  next
    case (Inr f)
    then have s: "convert_loop env t out i (d # pre) st =
        convert_loop env t out (Suc i) pre (fst st @ [f], ws)" using p by simp
    have s': "convert_loop env t out i ((d # pre) @ rest) st =
        convert_loop env t out (Suc i) (pre @ rest) (fst st @ [f], ws)" using p Inr by simp
    have "snd (convert_loop env t out (Suc i) pre (fst st @ [f], ws)) = None"
      using Cons.prems s by simp
    from Cons.IH [OF this] show ?thesis unfolding s s' by simp
  qed
qed

lemma convert_loop_files:
  "(snd (convert_loop env t out i ds st) = None \<longrightarrow>
      length (fst (fst (convert_loop env t out i ds st))) = length (fst st) + length ds) \<and>
   (snd (convert_loop env t out i ds st) \<noteq> None \<longrightarrow>
      length (fst (fst (convert_loop env t out i ds st))) < length (fst st) + length ds)"
proof (induction ds arbitrary: i st)
  case Nil
  then show ?case by simp
next
  case (Cons d ds)
  obtain r ws where p: "process_dataset env t out i d (snd st) = (r, ws)"
    by (cases "process_dataset env t out i d (snd st)") auto
  show ?case
  proof (cases r)
    case (Inl e)
    then show ?thesis using p by simp
  next
    case (Inr f)
    then have s: "convert_loop env t out i (d # ds) st =
        convert_loop env t out (Suc i) ds (fst st @ [f], ws)" using p by simp
    from Cons.IH [of "Suc i" "(fst st @ [f], ws)"] show ?thesis unfolding s by simp
  qed
qed

text \<open>
  C5 (as amended). Nothing in the loop of \<open>main\<close> catches an exception. When the datasets
  before one are processed without an exception and that one raises (its tree is rejected by
  the renderer, or its file cannot be opened), the run ends with the exception: the files
  of the datasets before it are written, and the datasets after it are not processed,
  whatever they are. A run that ends without an exception has written one file for every
  dataset, and a run that ends with an exception has written fewer. A tree with a character
  that XML does not allow makes \<open>prettify_xml\<close> raise \<open>ExpatError\<close>.
\<close>

theorem convert_loop_stops:
  "(convert_loop env t out i pre st = (st', None) \<and>
    process_dataset env t out (i + length pre) d (snd st') = (Inl e, ws) \<longrightarrow>
      convert_loop env t out i (pre @ d # post) st = ((fst st', ws), Some e)) \<and>
   (snd (convert_loop env t out i ds st) = None \<longrightarrow>
      length (fst (fst (convert_loop env t out i ds st))) = length (fst st) + length ds) \<and>
   (snd (convert_loop env t out i ds st) \<noteq> None \<longrightarrow>
      length (fst (fst (convert_loop env t out i ds st))) < length (fst st) + length ds) \<and>
   (\<not> well_formed (fst (create_tei_document d t ws0)) \<longrightarrow>
      fst (process_dataset env t out i d ws0) = Inl ExpatError)"
proof (intro conjI impI)
  assume a: "convert_loop env t out i pre st = (st', None) \<and>
    process_dataset env t out (i + length pre) d (snd st') = (Inl e, ws)"
  then have "convert_loop env t out (i + length pre) (d # post) st' = ((fst st', ws), Some e)"
    by simp
  moreover have "snd (convert_loop env t out i pre st) = None" using a by simp
  ultimately show "convert_loop env t out i (pre @ d # post) st = ((fst st', ws), Some e)"
    using a convert_loop_append [of env t out i pre st "d # post"] by simp
next
  assume "snd (convert_loop env t out i ds st) = None"
  then show "length (fst (fst (convert_loop env t out i ds st))) = length (fst st) + length ds"
    using convert_loop_files [of env t out i ds st] by simp
next
  assume "snd (convert_loop env t out i ds st) \<noteq> None"
  then show "length (fst (fst (convert_loop env t out i ds st))) < length (fst st) + length ds"
    using convert_loop_files [of env t out i ds st] by blast
next
  assume "\<not> well_formed (fst (create_tei_document d t ws0))"
  then show "fst (process_dataset env t out i d ws0) = Inl ExpatError"
    by (simp add: process_dataset_def prettify_xml_def Let_def)
qed

theorem convert_loop_stops_witness:
  "convert_loop plain_env no_template ''output'' 0 [[''Datensatz ID'' \<mapsto> ''7'']] ([], []) =
     (([(''7_tei.xml'', xml_prolog @ ''<TEI/>'' @ [CHR 0x0A])], []), None) \<and>
   process_dataset plain_env no_template ''output'' (0 + length [[''Datensatz ID'' \<mapsto> ''7'']])
     [''Anmerkungen'' \<mapsto> [CHR 0x01]] [] = (Inl ExpatError, []) \<and>
   convert_loop plain_env no_template ''output'' 0
     ([[''Datensatz ID'' \<mapsto> ''7'']] @ [''Anmerkungen'' \<mapsto> [CHR 0x01]] # [[''Datensatz ID'' \<mapsto> ''9'']])
     ([], []) =
     (([(''7_tei.xml'', xml_prolog @ ''<TEI/>'' @ [CHR 0x0A])], []), Some ExpatError)"
proof -
  have a: "convert_loop plain_env no_template ''output'' 0 [[''Datensatz ID'' \<mapsto> ''7'']] ([], []) =
     (([(''7_tei.xml'', xml_prolog @ ''<TEI/>'' @ [CHR 0x0A])], []), None)"
    by code_simp
  have b: "process_dataset plain_env no_template ''output''
     (0 + length [[''Datensatz ID'' \<mapsto> ''7'']]) [''Anmerkungen'' \<mapsto> [CHR 0x01]] [] =
     (Inl ExpatError, [])"
    by code_simp
  have b': "process_dataset plain_env no_template ''output''
     (0 + length [[''Datensatz ID'' \<mapsto> ''7'']]) [''Anmerkungen'' \<mapsto> [CHR 0x01]]
     (snd ([(''7_tei.xml'', xml_prolog @ ''<TEI/>'' @ [CHR 0x0A])], [])) = (Inl ExpatError, [])"
    using b by simp
  from convert_loop_stops [of plain_env no_template "''output''" 0 "[[''Datensatz ID'' \<mapsto> ''7'']]"
      "([], [])" "([(''7_tei.xml'', xml_prolog @ ''<TEI/>'' @ [CHR 0x0A])], [])"
      "[''Anmerkungen'' \<mapsto> [CHR 0x01]]" ExpatError "[]" "[[''Datensatz ID'' \<mapsto> ''9'']]"] a b'
  have c: "convert_loop plain_env no_template ''output'' 0
     ([[''Datensatz ID'' \<mapsto> ''7'']] @ [''Anmerkungen'' \<mapsto> [CHR 0x01]] # [[''Datensatz ID'' \<mapsto> ''9'']])
     ([], []) =
     (([(''7_tei.xml'', xml_prolog @ ''<TEI/>'' @ [CHR 0x0A])], []), Some ExpatError)"
    by simp
  show ?thesis using a b c by simp
qed

text \<open>
  C5 (as stated) fails. The table \<open>sample_rows\<close> has two datasets, and the note of the first
  one holds a control character. Rendering its document raises \<open>ExpatError\<close>; the exception
  is not caught, the run ends with it, and no file is written for the second dataset.
\<close>

theorem convert_main_halts_counterexample:
  "convert_main plain_env no_template ''output'' sample_rows = (([], []), Some ExpatError)"
  by code_simp

section \<open>Properties of the exit status of the auditor\<close>

lemma audit_loop_counts:
  "foldl (count_issues fs) (a, b) ds =
     (a + sum_list (map (\<lambda>d. length (dataset_issues fs d)) ds),
      b + length (filter (\<lambda>d. dataset_issues fs d \<noteq> []) ds))"
  by (induction ds arbitrary: a b) (simp_all add: count_issues_def)

lemma no_issue_iff:
  "(sum_list (map (\<lambda>d. length (dataset_issues fs d)) ds) = 0) =
   (\<forall>d\<in>set ds. dataset_issues fs d = [])"
  by (induction ds) auto

lemma no_record_iff:
  "(length (filter (\<lambda>d. dataset_issues fs d \<noteq> []) ds) = 0) =
   (\<forall>d\<in>set ds. dataset_issues fs d = [])"
  by (induction ds) auto

text \<open>
  C2 (as amended). The loop of \<open>main\<close> counts, in \<open>datasets_with_issues\<close>, the records with at
  least one issue, and adds up all issues in \<open>total_issues\<close>. The exit status is \<open>0\<close> when no
  record has an issue and \<open>1\<close> otherwise: it equals the count of records with issues only
  when that count is 0 or 1. The exit status is \<open>0\<close> if and only if no issue was found in
  any record.
\<close>

theorem validate_main_exit_status:
  "snd (audit_loop fs datasets) = length (filter (\<lambda>d. dataset_issues fs d \<noteq> []) datasets) \<and>
   fst (audit_loop fs datasets) = sum_list (map (\<lambda>d. length (dataset_issues fs d)) datasets) \<and>
   validate_main fs datasets = (if snd (audit_loop fs datasets) = 0 then 0 else 1) \<and>
   validate_main fs datasets = min 1 (snd (audit_loop fs datasets)) \<and>
   (validate_main fs datasets = 0) = (fst (audit_loop fs datasets) = 0) \<and>
   (validate_main fs datasets = 0) = (\<forall>d\<in>set datasets. dataset_issues fs d = [])"
proof -
  have c: "audit_loop fs datasets =
      (sum_list (map (\<lambda>d. length (dataset_issues fs d)) datasets),
       length (filter (\<lambda>d. dataset_issues fs d \<noteq> []) datasets))"
    unfolding audit_loop_def using audit_loop_counts [of fs 0 0 datasets] by simp
  have e: "(fst (audit_loop fs datasets) = 0) = (snd (audit_loop fs datasets) = 0)"
    unfolding c fst_conv snd_conv no_issue_iff no_record_iff ..
  have n: "(fst (audit_loop fs datasets) = 0) = (\<forall>d\<in>set datasets. dataset_issues fs d = [])"
    unfolding c fst_conv no_issue_iff ..
  show ?thesis
  proof (intro conjI)
    show "snd (audit_loop fs datasets) =
        length (filter (\<lambda>d. dataset_issues fs d \<noteq> []) datasets)" by (simp add: c)
    show "fst (audit_loop fs datasets) =
        sum_list (map (\<lambda>d. length (dataset_issues fs d)) datasets)" by (simp add: c)
    show "validate_main fs datasets = (if snd (audit_loop fs datasets) = 0 then 0 else 1)"
      using e by (simp add: validate_main_def)
    show "validate_main fs datasets = min 1 (snd (audit_loop fs datasets))"
      using e by (simp add: validate_main_def)
    show "(validate_main fs datasets = 0) = (fst (audit_loop fs datasets) = 0)"
      by (simp add: validate_main_def)
    show "(validate_main fs datasets = 0) = (\<forall>d\<in>set datasets. dataset_issues fs d = [])"
      using n by (simp add: validate_main_def)
  qed
qed

theorem validate_main_exit_status_witness:
  "dataset_issues no_files sample_record = [] \<and>
   validate_main no_files [sample_record] = 0 \<and>
   dataset_issues no_files Map.empty \<noteq> [] \<and>
   validate_main no_files [sample_record, Map.empty] = 1"
proof -
  have g: "dataset_issues no_files sample_record = []" by code_simp
  have b: "dataset_issues no_files Map.empty \<noteq> []" by code_simp
  have 1: "validate_main no_files [sample_record] = 0"
    using validate_main_exit_status [of no_files "[sample_record]"] g by simp
  have 2: "validate_main no_files [sample_record, Map.empty] = 1"
    using validate_main_exit_status [of no_files "[sample_record, Map.empty]"] g b by simp
  show ?thesis using g b 1 2 by simp
qed

text \<open>
  C2 (as stated) fails: with two records that both have issues the count is 2 and the
  exit status is 1.
\<close>

theorem validate_main_count_counterexample:
  "snd (audit_loop no_files [Map.empty, Map.empty]) = 2 \<and>
   validate_main no_files [Map.empty, Map.empty] = 1 \<and>
   validate_main no_files [Map.empty, Map.empty] \<noteq> snd (audit_loop no_files [Map.empty, Map.empty])"
  by code_simp

end
